theory Spec2Isabelle
  imports
    Main
    "HOL-Library.AList"
    "HOL-Library.Char_ord"
    "HOL-Library.List_Lexorder"
    "HOL-Library.Product_Lexorder"
    "HOL-Library.Multiset"
begin

section \<open>Announcements endpoints (backend/routers/announcements.py)\<close>

text \<open>
  The module is a request/response layer over two document collections
  (\<open>announcements_collection\<close>, \<open>teachers_collection\<close>). Every handler is embedded
  as a function from the request arguments and the database state to a result
  (\<open>Inl\<close> an exception, \<open>Inr\<close> the returned value) paired with the database state
  it leaves behind.
\<close>

subsection \<open>Values, documents, exceptions\<close>

text \<open>
  A \<open>datetime\<close> is an instant on the time line. The document store compares and
  sorts dates as instants, so the integers with their order stand for them.
  An \<open>oid\<close> is the value of a store object id.
\<close>

type_synonym datetime = int
type_synonym oid = nat

text \<open>The values a document of this module holds: \<open>None\<close>, \<open>str\<close>, \<open>ObjectId\<close>, \<open>datetime\<close>.\<close>

datatype bson = BNull | BString string | BObjectId oid | BDate datetime

text \<open>
  A document is a Python \<open>dict\<close> with string keys: an association list read with
  \<open>map_of\<close>, written with \<open>AList.update\<close> (\<open>doc[k] = v\<close>) and \<open>AList.delete\<close>
  (\<open>doc.pop(k)\<close>).
\<close>

type_synonym doc = "(string \<times> bson) list"

text \<open>
  \<open>HTTPException status detail\<close> is FastAPI's exception. \<open>ValueError\<close> is what
  \<open>datetime.fromisoformat\<close> raises, \<open>KeyError\<close> what \<open>dict.pop\<close> raises on a missing
  key, \<open>TypeError\<close> what \<open>{**None}\<close> raises.
\<close>

datatype error = HTTPException nat string | ValueError | KeyError | TypeError

subsection \<open>The environment of a request\<close>

text \<open>
  The library functions the module calls and does not define are parameters:
  \<open>fromisoformat\<close> is \<open>datetime.fromisoformat\<close> (\<open>None\<close> where it raises),
  \<open>isoformat\<close> is \<open>datetime.isoformat\<close>, \<open>ObjectId\<close> is the constructor of
  \<open>bson.ObjectId\<close> from a string (\<open>None\<close> where it raises), \<open>str_ObjectId\<close> and
  \<open>str_datetime\<close> are \<open>str\<close> on these types, and \<open>utcnow\<close> is the reading of
  \<open>datetime.utcnow()\<close> during the request (each handler reads the clock at most once).
\<close>

record env =
  fromisoformat :: "string \<Rightarrow> datetime option"
  isoformat :: "datetime \<Rightarrow> string"
  ObjectId :: "string \<Rightarrow> oid option"
  str_ObjectId :: "oid \<Rightarrow> string"
  str_datetime :: "datetime \<Rightarrow> string"
  utcnow :: datetime

subsection \<open>Strings\<close>

text \<open>
  \<open>str.strip()\<close> removes leading and trailing characters for which \<open>str.isspace\<close>
  holds. A \<open>char\<close> stands for a code point below 256; the whitespace among them is
  U+0009..U+000D, U+001C..U+0020, U+0085 and U+00A0.
\<close>

definition isspace :: "char \<Rightarrow> bool" where
  "isspace c = ((of_char c :: nat) \<in> {9, 10, 11, 12, 13, 28, 29, 30, 31, 32, 133, 160})"

definition strip :: "string \<Rightarrow> string" where
  "strip s = rev (dropWhile isspace (rev (dropWhile isspace s)))"

text \<open>\<open>str(v)\<close> for a stored value.\<close>

fun py_str :: "env \<Rightarrow> bson \<Rightarrow> string" where
  "py_str E BNull = ''None''"
| "py_str E (BString s) = s"
| "py_str E (BObjectId i) = str_ObjectId E i"
| "py_str E (BDate t) = str_datetime E t"

subsection \<open>The document store\<close>

text \<open>
  Modelled from the spec: the module \<open>..database\<close> that binds
  \<open>announcements_collection\<close> and \<open>teachers_collection\<close> is not part of the source;
  the spec describes it as a document-store client exposing find (with filter and
  sort), find-one-by-id, insert-one, update-one (set semantics) and delete-one.
  A collection is the list of its documents in insertion order. The store keeps
  values as they are written. \<open>calls\<close> records every call issued to a collection.
\<close>

datatype coll = Announcements | Teachers

datatype store_op = Find | FindOne | InsertOne | UpdateOne | DeleteOne

record db =
  announcements_collection :: "doc list"
  teachers_collection :: "doc list"
  calls :: "(coll \<times> store_op) list"

definition coll_docs :: "coll \<Rightarrow> db \<Rightarrow> doc list" where
  "coll_docs c s = (case c of Announcements \<Rightarrow> announcements_collection s
                            | Teachers \<Rightarrow> teachers_collection s)"

definition set_docs :: "coll \<Rightarrow> doc list \<Rightarrow> db \<Rightarrow> db" where
  "set_docs c ds s = (case c of Announcements \<Rightarrow> s\<lparr>announcements_collection := ds\<rparr>
                              | Teachers \<Rightarrow> s\<lparr>teachers_collection := ds\<rparr>)"

definition log_call :: "coll \<Rightarrow> store_op \<Rightarrow> db \<Rightarrow> db" where
  "log_call c operation s = s\<lparr>calls := calls s @ [(c, operation)]\<rparr>"

text \<open>
  The store's comparison order on values: by type first (null, string, object id,
  date), then inside the type. A missing field sorts as null.
\<close>

fun bson_key :: "bson \<Rightarrow> nat \<times> string \<times> nat \<times> int" where
  "bson_key BNull = (0, [], 0, 0)"
| "bson_key (BString s) = (1, s, 0, 0)"
| "bson_key (BObjectId i) = (2, [], i, 0)"
| "bson_key (BDate t) = (3, [], 0, t)"

definition sort_field :: "string \<Rightarrow> doc \<Rightarrow> nat \<times> string \<times> nat \<times> int" where
  "sort_field k d = (case map_of d k of None \<Rightarrow> bson_key BNull | Some v \<Rightarrow> bson_key v)"

text \<open>
  The filters the module builds. \<open>Eq v\<close> is \<open>{field: v}\<close> (with \<open>None\<close> it matches a
  null and a missing field), \<open>Gte t\<close> and \<open>Lte t\<close> are \<open>{"$gte": t}\<close> and
  \<open>{"$lte": t}\<close> for a datetime \<open>t\<close> (they match dates only), \<open>Exists b\<close> is
  \<open>{"$exists": b}\<close>; \<open>And []\<close> is the empty filter.
\<close>

datatype cond = Eq bson | Gte datetime | Lte datetime | Exists bool

datatype query = Field string cond | And "query list" | Or "query list"

fun cond_holds :: "cond \<Rightarrow> bson option \<Rightarrow> bool" where
  "cond_holds (Eq BNull) v = (v = None \<or> v = Some BNull)"
| "cond_holds (Eq x) v = (v = Some x)"
| "cond_holds (Gte t) v = (case v of Some (BDate u) \<Rightarrow> t \<le> u | _ \<Rightarrow> False)"
| "cond_holds (Lte t) v = (case v of Some (BDate u) \<Rightarrow> u \<le> t | _ \<Rightarrow> False)"
| "cond_holds (Exists b) v = ((v \<noteq> None) = b)"

fun matches :: "query \<Rightarrow> doc \<Rightarrow> bool" where
  "matches (Field k c) d = cond_holds c (map_of d k)"
| "matches (And qs) d = (\<forall>q \<in> set qs. matches q d)"
| "matches (Or qs) d = (\<exists>q \<in> set qs. matches q d)"

text \<open>\<open>collection.find(query).sort(key, direction)\<close>: direction 1 ascending, -1 descending.\<close>

definition find_sort :: "coll \<Rightarrow> query \<Rightarrow> string \<Rightarrow> int \<Rightarrow> db \<Rightarrow> doc list \<times> db" where
  "find_sort c q k direction s =
     (let found = filter (matches q) (coll_docs c s);
          ordered = sort_key (sort_field k) found
      in (if direction = 1 then ordered else rev ordered, log_call c Find s))"

text \<open>\<open>collection.find_one(query)\<close>: the first matching document, or \<open>None\<close>.\<close>

definition find_one :: "coll \<Rightarrow> query \<Rightarrow> db \<Rightarrow> doc option \<times> db" where
  "find_one c q s = (List.find (matches q) (coll_docs c s), log_call c FindOne s)"

text \<open>
  \<open>collection.insert_one(doc)\<close> for a document without \<open>_id\<close>: the driver generates
  an object id that no document of the collection has, stores the document under
  it and returns it as \<open>inserted_id\<close>.
\<close>

definition oids :: "doc list \<Rightarrow> oid list" where
  "oids ds = concat (map (\<lambda>d. case map_of d ''_id'' of Some (BObjectId i) \<Rightarrow> [i] | _ \<Rightarrow> []) ds)"

definition fresh_oid :: "doc list \<Rightarrow> oid" where
  "fresh_oid ds = Suc (foldr max (oids ds) 0)"

definition insert_one :: "coll \<Rightarrow> doc \<Rightarrow> db \<Rightarrow> bson \<times> db" where
  "insert_one c d s =
     (let inserted_id = BObjectId (fresh_oid (coll_docs c s))
      in (inserted_id,
          set_docs c (coll_docs c s @ [(''_id'', inserted_id) # d]) (log_call c InsertOne s)))"

text \<open>
  \<open>collection.update_one(query, {"$set": update})\<close>: the first matching document
  gets every field of \<open>update\<close>; the result is \<open>matched_count\<close>.
\<close>

fun set_fields :: "doc \<Rightarrow> doc \<Rightarrow> doc" where
  "set_fields [] d = d"
| "set_fields ((k, v) # kvs) d = set_fields kvs (AList.update k v d)"

fun update_first :: "(doc \<Rightarrow> bool) \<Rightarrow> (doc \<Rightarrow> doc) \<Rightarrow> doc list \<Rightarrow> doc list" where
  "update_first P f [] = []"
| "update_first P f (d # ds) = (if P d then f d # ds else d # update_first P f ds)"

definition update_one :: "coll \<Rightarrow> query \<Rightarrow> doc \<Rightarrow> db \<Rightarrow> nat \<times> db" where
  "update_one c q update s =
     (let ds = coll_docs c s;
          matched_count = (if list_ex (matches q) ds then 1 else 0)
      in (matched_count,
          set_docs c (update_first (matches q) (set_fields update) ds) (log_call c UpdateOne s)))"

text \<open>\<open>collection.delete_one(query)\<close>: removes the first matching document; the result is \<open>deleted_count\<close>.\<close>

fun remove_first :: "(doc \<Rightarrow> bool) \<Rightarrow> doc list \<Rightarrow> doc list" where
  "remove_first P [] = []"
| "remove_first P (d # ds) = (if P d then ds else d # remove_first P ds)"

definition delete_one :: "coll \<Rightarrow> query \<Rightarrow> db \<Rightarrow> nat \<times> db" where
  "delete_one c q s =
     (let ds = coll_docs c s;
          deleted_count = (if list_ex (matches q) ds then 1 else 0)
      in (deleted_count,
          set_docs c (remove_first (matches q) ds) (log_call c DeleteOne s)))"

subsection \<open>Helpers of the module\<close>

text \<open>\<open>_parse_datetime\<close> (lines 19-27).\<close>

definition parse_datetime :: "env \<Rightarrow> string option \<Rightarrow> error + datetime option" where
  "parse_datetime E v =
     (case v of
        None \<Rightarrow> Inr None
      | Some x \<Rightarrow>
          if x = [] then Inr None
          else (case fromisoformat E x of
                  Some t \<Rightarrow> Inr (Some t)
                | None \<Rightarrow> Inl (HTTPException 400 (''Invalid datetime format: '' @ x))))"

text \<open>\<open>_to_object_id\<close> (lines 154-158).\<close>

definition to_object_id :: "env \<Rightarrow> string \<Rightarrow> error + bson" where
  "to_object_id E id_str =
     (case ObjectId E id_str of
        Some i \<Rightarrow> Inr (BObjectId i)
      | None \<Rightarrow> Inl (HTTPException 400 ''Invalid announcement id''))"

text \<open>\<open>_require_teacher\<close> (lines 161-166); \<open>not x\<close> holds of \<open>None\<close>, of the empty string and of the empty dict.\<close>

definition require_teacher :: "string option \<Rightarrow> db \<Rightarrow> (error + unit) \<times> db" where
  "require_teacher username s =
     (case username of
        None \<Rightarrow> (Inl (HTTPException 401 ''Authentication required''), s)
      | Some u \<Rightarrow>
          if u = [] then (Inl (HTTPException 401 ''Authentication required''), s)
          else (case find_one Teachers (Field ''_id'' (Eq (BString u))) s of
                  (teacher, s') \<Rightarrow>
                    if teacher = None \<or> teacher = Some []
                    then (Inl (HTTPException 401 ''Invalid teacher credentials''), s')
                    else (Inr (), s')))"

text \<open>
  \<open>_serialize_dates\<close> (lines 169-174): \<open>serialize_key\<close> is the body of its loop, for
  one key.
\<close>

definition serialize_key :: "env \<Rightarrow> string \<Rightarrow> doc \<Rightarrow> doc" where
  "serialize_key E key doc =
     (case map_of doc key of
        Some (BDate t) \<Rightarrow> AList.update key (BString (isoformat E t)) doc
      | _ \<Rightarrow> doc)"

definition date_keys :: "string list" where
  "date_keys = [''start_date'', ''end_date'', ''created_at'', ''updated_at'']"

definition serialize_dates :: "env \<Rightarrow> doc \<Rightarrow> doc" where
  "serialize_dates E d = fold (serialize_key E) date_keys d"

text \<open>
  The three lines every handler applies to a stored document before returning it:
  \<open>doc = {**ann}; doc["id"] = str(doc.pop("_id")); _serialize_dates(doc)\<close>.
\<close>

definition to_response :: "env \<Rightarrow> doc \<Rightarrow> error + doc" where
  "to_response E ann =
     (case map_of ann ''_id'' of
        None \<Rightarrow> Inl KeyError
      | Some i \<Rightarrow>
          Inr (serialize_dates E
                 (AList.update ''id'' (BString (py_str E i)) (AList.delete ''_id'' ann))))"

text \<open>The loop \<open>for ann in cursor: ... results.append(...)\<close> of the two listing handlers.\<close>

fun collect :: "env \<Rightarrow> doc list \<Rightarrow> doc list \<Rightarrow> error + doc list" where
  "collect E [] results = Inr results"
| "collect E (ann # cursor) results =
     (case to_response E ann of
        Inl e \<Rightarrow> Inl e
      | Inr d \<Rightarrow> collect E cursor (results @ [d]))"

subsection \<open>The handlers\<close>

text \<open>
  Line 37: \<open>datetime.fromisoformat(now) if now else datetime.utcnow()\<close>; \<open>now\<close> is
  false when it is \<open>None\<close> and when it is the empty string.
\<close>

definition reference_time :: "env \<Rightarrow> string option \<Rightarrow> error + datetime" where
  "reference_time E now =
     (case now of
        None \<Rightarrow> Inr (utcnow E)
      | Some n \<Rightarrow>
          if n \<noteq> []
          then (case fromisoformat E n of Some t \<Rightarrow> Inr t | None \<Rightarrow> Inl ValueError)
          else Inr (utcnow E))"

definition active_query :: "datetime \<Rightarrow> query" where
  "active_query reference =
     And [Field ''end_date'' (Gte reference),
          Or [Field ''start_date'' (Lte reference),
              Field ''start_date'' (Exists False),
              Field ''start_date'' (Eq BNull)]]"

definition get_active_announcements :: "env \<Rightarrow> string option \<Rightarrow> db \<Rightarrow> (error + doc list) \<times> db" where
  "get_active_announcements E now s =
     (case reference_time E now of
        Inl e \<Rightarrow> (Inl e, s)
      | Inr reference \<Rightarrow>
          (case find_sort Announcements (active_query reference) ''end_date'' 1 s of
             (cursor, s') \<Rightarrow> (collect E cursor [], s')))"

definition list_announcements :: "env \<Rightarrow> db \<Rightarrow> (error + doc list) \<times> db" where
  "list_announcements E s =
     (case find_sort Announcements (And []) ''end_date'' (- 1) s of
        (cursor, s') \<Rightarrow> (collect E cursor [], s'))"

definition opt_date :: "datetime option \<Rightarrow> bson" where
  "opt_date v = (case v of None \<Rightarrow> BNull | Some t \<Rightarrow> BDate t)"

text \<open>Lines 91-97: the document \<open>create_announcement\<close> inserts.\<close>

definition announcement_doc :: "string \<Rightarrow> datetime option \<Rightarrow> datetime \<Rightarrow> datetime \<Rightarrow> doc" where
  "announcement_doc message start_dt end_dt now =
     [(''message'', BString (strip message)),
      (''start_date'', opt_date start_dt),
      (''end_date'', BDate end_dt),
      (''created_at'', BDate now),
      (''updated_at'', BDate now)]"

definition create_announcement ::
  "env \<Rightarrow> string \<Rightarrow> string \<Rightarrow> string option \<Rightarrow> string option \<Rightarrow> db \<Rightarrow> (error + doc) \<times> db" where
  "create_announcement E message end_date start_date teacher_username s =
     (case require_teacher teacher_username s of
        (Inl e, s1) \<Rightarrow> (Inl e, s1)
      | (Inr _, s1) \<Rightarrow>
          if message = [] \<or> strip message = []
          then (Inl (HTTPException 400 ''Message is required''), s1)
          else (case parse_datetime E (Some end_date) of
                  Inl e \<Rightarrow> (Inl e, s1)
                | Inr None \<Rightarrow> (Inl (HTTPException 400 ''end_date is required''), s1)
                | Inr (Some end_dt) \<Rightarrow>
                    (case parse_datetime E start_date of
                       Inl e \<Rightarrow> (Inl e, s1)
                     | Inr start_dt \<Rightarrow>
                         (let now = utcnow E;
                              doc = announcement_doc message start_dt end_dt now
                          in case insert_one Announcements doc s1 of
                               (inserted_id, s2) \<Rightarrow>
                                 (case find_one Announcements (Field ''_id'' (Eq inserted_id)) s2 of
                                    (None, s3) \<Rightarrow> (Inl TypeError, s3)
                                  | (Some created, s3) \<Rightarrow> (to_response E created, s3))))))"

text \<open>Lines 117-128 of \<open>update_announcement\<close>: the \<open>update\<close> dict, built field by field.\<close>

definition update_message :: "string option \<Rightarrow> doc \<Rightarrow> error + doc" where
  "update_message message update =
     (case message of
        None \<Rightarrow> Inr update
      | Some m \<Rightarrow>
          if strip m = [] then Inl (HTTPException 400 ''Message cannot be empty'')
          else Inr (AList.update ''message'' (BString (strip m)) update))"

definition update_start_date :: "env \<Rightarrow> string option \<Rightarrow> doc \<Rightarrow> error + doc" where
  "update_start_date E start_date update =
     (case start_date of
        None \<Rightarrow> Inr update
      | Some x \<Rightarrow>
          (case parse_datetime E (Some x) of
             Inl e \<Rightarrow> Inl e
           | Inr v \<Rightarrow> Inr (AList.update ''start_date'' (opt_date v) update)))"

definition update_end_date :: "env \<Rightarrow> string option \<Rightarrow> doc \<Rightarrow> error + doc" where
  "update_end_date E end_date update =
     (case end_date of
        None \<Rightarrow> Inr update
      | Some x \<Rightarrow>
          (case parse_datetime E (Some x) of
             Inl e \<Rightarrow> Inl e
           | Inr None \<Rightarrow> Inl (HTTPException 400 ''end_date cannot be null'')
           | Inr (Some end_dt) \<Rightarrow> Inr (AList.update ''end_date'' (BDate end_dt) update)))"

definition build_update :: "env \<Rightarrow> string option \<Rightarrow> string option \<Rightarrow> string option \<Rightarrow> error + doc" where
  "build_update E message end_date start_date =
     (case update_message message [(''updated_at'', BDate (utcnow E))] of
        Inl e \<Rightarrow> Inl e
      | Inr u1 \<Rightarrow>
          (case update_start_date E start_date u1 of
             Inl e \<Rightarrow> Inl e
           | Inr u2 \<Rightarrow> update_end_date E end_date u2))"

definition update_announcement ::
  "env \<Rightarrow> string \<Rightarrow> string option \<Rightarrow> string option \<Rightarrow> string option \<Rightarrow> string option \<Rightarrow> db
     \<Rightarrow> (error + doc) \<times> db" where
  "update_announcement E announcement_id message end_date start_date teacher_username s =
     (case require_teacher teacher_username s of
        (Inl e, s1) \<Rightarrow> (Inl e, s1)
      | (Inr _, s1) \<Rightarrow>
          (case build_update E message end_date start_date of
             Inl e \<Rightarrow> (Inl e, s1)
           | Inr update \<Rightarrow>
               (case to_object_id E announcement_id of
                  Inl e \<Rightarrow> (Inl e, s1)
                | Inr i \<Rightarrow>
                    (case update_one Announcements (Field ''_id'' (Eq i)) update s1 of
                       (matched_count, s2) \<Rightarrow>
                         if matched_count = 0
                         then (Inl (HTTPException 404 ''Announcement not found''), s2)
                         else (case to_object_id E announcement_id of
                                 Inl e \<Rightarrow> (Inl e, s2)
                               | Inr j \<Rightarrow>
                                   (case find_one Announcements (Field ''_id'' (Eq j)) s2 of
                                      (None, s3) \<Rightarrow> (Inl TypeError, s3)
                                    | (Some doc, s3) \<Rightarrow> (to_response E doc, s3)))))))"

definition delete_announcement ::
  "env \<Rightarrow> string \<Rightarrow> string option \<Rightarrow> db \<Rightarrow> (error + doc) \<times> db" where
  "delete_announcement E announcement_id teacher_username s =
     (case require_teacher teacher_username s of
        (Inl e, s1) \<Rightarrow> (Inl e, s1)
      | (Inr _, s1) \<Rightarrow>
          (case to_object_id E announcement_id of
             Inl e \<Rightarrow> (Inl e, s1)
           | Inr i \<Rightarrow>
               (case delete_one Announcements (Field ''_id'' (Eq i)) s1 of
                  (deleted_count, s2) \<Rightarrow>
                    if deleted_count = 0
                    then (Inl (HTTPException 404 ''Announcement not found''), s2)
                    else (Inr [(''message'', BString ''Announcement deleted'')], s2))))"

subsection \<open>Observations used in the statements\<close>

text \<open>
  The status the framework answers with: the code of an \<open>HTTPException\<close>, 500 for
  any other exception that leaves the handler, 200 for a returned value.
\<close>

fun http_status :: "error + 'a \<Rightarrow> nat" where
  "http_status (Inr _) = 200"
| "http_status (Inl (HTTPException code _)) = code"
| "http_status (Inl _) = 500"

text \<open>A field of the returned record; \<open>None\<close> when the handler raised.\<close>

definition response_field :: "string \<Rightarrow> error + doc \<Rightarrow> bson option" where
  "response_field k r = (case r of Inl _ \<Rightarrow> None | Inr out \<Rightarrow> map_of out k)"

text \<open>A username is known when a teacher record has it as \<open>_id\<close>.\<close>

definition known_teacher :: "string \<Rightarrow> db \<Rightarrow> bool" where
  "known_teacher u s = list_ex (\<lambda>t. map_of t ''_id'' = Some (BString u)) (teachers_collection s)"

definition authenticated :: "string option \<Rightarrow> db \<Rightarrow> bool" where
  "authenticated username s =
     (case username of None \<Rightarrow> False | Some u \<Rightarrow> u \<noteq> [] \<and> known_teacher u s)"

text \<open>What a failed authentication leaves: the detail and the state.\<close>

definition auth_detail :: "string option \<Rightarrow> string" where
  "auth_detail username =
     (if username = None \<or> username = Some [] then ''Authentication required''
      else ''Invalid teacher credentials'')"

definition auth_state :: "string option \<Rightarrow> db \<Rightarrow> db" where
  "auth_state username s =
     (if username = None \<or> username = Some [] then s else log_call Teachers FindOne s)"

text \<open>The stored announcement an identifier names: the first one with that \<open>_id\<close>.\<close>

definition stored :: "oid \<Rightarrow> db \<Rightarrow> doc option" where
  "stored i s = List.find (\<lambda>d. map_of d ''_id'' = Some (BObjectId i)) (announcements_collection s)"

text \<open>
  The document a create stores for a message and parsed dates: the inserted
  document under the generated \<open>_id\<close>.
\<close>

definition created_doc :: "env \<Rightarrow> string \<Rightarrow> datetime option \<Rightarrow> datetime \<Rightarrow> db \<Rightarrow> doc" where
  "created_doc E message start_dt end_dt s =
     (''_id'', BObjectId (fresh_oid (announcements_collection s)))
       # announcement_doc message start_dt end_dt (utcnow E)"

text \<open>Every stored announcement has its \<open>_id\<close>, as the store guarantees.\<close>

definition has_ids :: "db \<Rightarrow> bool" where
  "has_ids s = list_all (\<lambda>d. map_of d ''_id'' \<noteq> None) (announcements_collection s)"

text \<open>
  The active predicate in the spec's words: active at \<open>T\<close> iff \<open>end_date \<ge> T\<close> and
  (\<open>start_date\<close> absent or null, or \<open>start_date \<le> T\<close>).
\<close>

definition spec_active :: "datetime \<Rightarrow> doc \<Rightarrow> bool" where
  "spec_active T A =
     ((case map_of A ''end_date'' of Some (BDate e) \<Rightarrow> T \<le> e | _ \<Rightarrow> False) \<and>
      (case map_of A ''start_date'' of
         None \<Rightarrow> True
       | Some BNull \<Rightarrow> True
       | Some (BDate b) \<Rightarrow> b \<le> T
       | _ \<Rightarrow> False))"

text \<open>
  The serialized record in the spec's words: the identifier as a string under
  \<open>id\<close>, the date fields as ISO-8601 strings, the message as stored.
\<close>

definition iso_value :: "env \<Rightarrow> bson option \<Rightarrow> bson option" where
  "iso_value E v = (case v of Some (BDate t) \<Rightarrow> Some (BString (isoformat E t)) | _ \<Rightarrow> v)"

definition serialized :: "env \<Rightarrow> doc \<Rightarrow> doc \<Rightarrow> bool" where
  "serialized E A out =
     ((case map_of A ''_id'' of
         None \<Rightarrow> False
       | Some i \<Rightarrow> map_of out ''id'' = Some (BString (py_str E i)))
      \<and> map_of out ''_id'' = None
      \<and> map_of out ''message'' = map_of A ''message''
      \<and> map_of out ''start_date'' = iso_value E (map_of A ''start_date'')
      \<and> map_of out ''end_date'' = iso_value E (map_of A ''end_date'')
      \<and> map_of out ''created_at'' = iso_value E (map_of A ''created_at'')
      \<and> map_of out ''updated_at'' = iso_value E (map_of A ''updated_at''))"

text \<open>The \<open>end_date\<close> of a document when it is a date.\<close>

definition end_date_of :: "doc \<Rightarrow> datetime option" where
  "end_date_of d = (case map_of d ''end_date'' of Some (BDate e) \<Rightarrow> Some e | _ \<Rightarrow> None)"

subsection \<open>A sample environment and database\<close>

text \<open>
  Concrete requests are evaluated in this environment: five instants with their
  ISO-8601 strings (seconds since the epoch), four object ids with their hex
  strings, the clock at 2025-06-06T00:00:00, one teacher and three announcements.
\<close>

definition sample_env :: env where
  "sample_env =
     \<lparr> fromisoformat = map_of
         [(''2025-06-01T00:00:00'', 1748736000), (''2025-06-05T00:00:00'', 1749081600),
          (''2025-06-06T00:00:00'', 1749168000), (''2025-06-10T00:00:00'', 1749513600),
          (''2025-06-11T00:00:00'', 1749600000)],
       isoformat = (\<lambda>t. case map_of
         [(1748736000, ''2025-06-01T00:00:00''), (1749081600, ''2025-06-05T00:00:00''),
          (1749168000, ''2025-06-06T00:00:00''), (1749513600, ''2025-06-10T00:00:00''),
          (1749600000, ''2025-06-11T00:00:00'')] t of Some x \<Rightarrow> x | None \<Rightarrow> []),
       ObjectId = map_of
         [(''665f00000000000000000001'', 1), (''665f00000000000000000002'', 2),
          (''665f00000000000000000003'', 3), (''665f00000000000000000004'', 4)],
       str_ObjectId = (\<lambda>i. case map_of
         [(1, ''665f00000000000000000001''), (2, ''665f00000000000000000002''),
          (3, ''665f00000000000000000003''), (4, ''665f00000000000000000004'')] i
          of Some x \<Rightarrow> x | None \<Rightarrow> []),
       str_datetime = (\<lambda>t. []),
       utcnow = 1749168000 \<rparr>"

definition sample_db :: db where
  "sample_db =
     \<lparr> announcements_collection =
         [[(''_id'', BObjectId 1), (''message'', BString ''Final exams start Monday''),
           (''start_date'', BNull), (''end_date'', BDate 1749513600),
           (''created_at'', BDate 1748736000), (''updated_at'', BDate 1748736000)],
          [(''_id'', BObjectId 2), (''message'', BString ''Science fair''),
           (''start_date'', BDate 1749168000), (''end_date'', BDate 1749600000),
           (''created_at'', BDate 1748736000), (''updated_at'', BDate 1748736000)],
          [(''_id'', BObjectId 3), (''message'', BString ''Library closed''),
           (''end_date'', BDate 1749081600),
           (''created_at'', BDate 1748736000), (''updated_at'', BDate 1748736000)]],
       teachers_collection =
         [[(''_id'', BString ''jwilson''), (''display_name'', BString ''J. Wilson'')]],
       calls = [] \<rparr>"

section \<open>Properties\<close>

subsection \<open>Authentication\<close>

lemma require_teacher_missing:
  "username = None \<or> username = Some [] \<Longrightarrow>
   require_teacher username s = (Inl (HTTPException 401 ''Authentication required''), s)"
  by (auto simp: require_teacher_def)

lemma require_teacher_unknown:
  assumes "u \<noteq> []" and "\<not> known_teacher u s"
  shows "require_teacher (Some u) s =
         (Inl (HTTPException 401 ''Invalid teacher credentials''), log_call Teachers FindOne s)"
proof -
  have "List.find (matches (Field ''_id'' (Eq (BString u)))) (teachers_collection s) = None"
    using assms(2) by (simp add: known_teacher_def find_None_iff list_ex_iff)
  then show ?thesis
    using assms(1) by (simp add: require_teacher_def find_one_def coll_docs_def)
qed

lemma require_teacher_ok:
  assumes "authenticated username s"
  shows "require_teacher username s = (Inr (), log_call Teachers FindOne s)"
proof -
  from assms obtain u where u: "username = Some u" "u \<noteq> []" "known_teacher u s"
    by (auto simp: authenticated_def split: option.splits)
  let ?P = "matches (Field ''_id'' (Eq (BString u)))"
  from u(3) have "List.find ?P (teachers_collection s) \<noteq> None"
    by (auto simp: known_teacher_def find_None_iff list_ex_iff)
  then obtain t where t: "List.find ?P (teachers_collection s) = Some t" by blast
  then have "?P t" by (auto simp: find_Some_iff)
  then have "t \<noteq> []" by auto
  with t u show ?thesis
    by (simp add: require_teacher_def find_one_def coll_docs_def)
qed

lemma require_teacher_unauth:
  assumes "\<not> authenticated username s"
  shows "require_teacher username s =
         (Inl (HTTPException 401 (auth_detail username)), auth_state username s)"
proof (cases "username = None \<or> username = Some []")
  case True
  then show ?thesis
    using require_teacher_missing[OF True, of s] by (simp add: auth_detail_def auth_state_def)
next
  case False
  then obtain u where u: "username = Some u" "u \<noteq> []" by (cases username) auto
  with assms have "\<not> known_teacher u s" by (simp add: authenticated_def)
  from require_teacher_unknown[OF u(2) this] u show ?thesis
    by (simp add: auth_detail_def auth_state_def)
qed

lemma create_unauth:
  "\<not> authenticated username s \<Longrightarrow>
   create_announcement E message end_date start_date username s =
     (Inl (HTTPException 401 (auth_detail username)), auth_state username s)"
  by (simp add: create_announcement_def require_teacher_unauth)

lemma update_unauth:
  "\<not> authenticated username s \<Longrightarrow>
   update_announcement E announcement_id message end_date start_date username s =
     (Inl (HTTPException 401 (auth_detail username)), auth_state username s)"
  by (simp add: update_announcement_def require_teacher_unauth)

lemma delete_unauth:
  "\<not> authenticated username s \<Longrightarrow>
   delete_announcement E announcement_id username s =
     (Inl (HTTPException 401 (auth_detail username)), auth_state username s)"
  by (simp add: delete_announcement_def require_teacher_unauth)

subsection \<open>Claims on authentication\<close>

text \<open>
  C6. For create, update and delete: a missing \<open>teacher_username\<close> fails with status
  401 and detail "Authentication required"; a \<open>teacher_username\<close> that matches no
  teacher record fails with status 401.
\<close>

theorem unauthenticated_is_401:
  "(teacher_username = None \<longrightarrow>
      fst (create_announcement E message end_date start_date teacher_username s)
        = Inl (HTTPException 401 ''Authentication required'')
    \<and> fst (update_announcement E announcement_id message' end_date' start_date teacher_username s)
        = Inl (HTTPException 401 ''Authentication required'')
    \<and> fst (delete_announcement E announcement_id teacher_username s)
        = Inl (HTTPException 401 ''Authentication required''))
   \<and> (\<forall>u. teacher_username = Some u \<and> \<not> known_teacher u s \<longrightarrow>
      http_status (fst (create_announcement E message end_date start_date teacher_username s)) = 401
    \<and> http_status (fst (update_announcement E announcement_id message' end_date' start_date teacher_username s)) = 401
    \<and> http_status (fst (delete_announcement E announcement_id teacher_username s)) = 401)"
proof -
  have a: "teacher_username = None \<Longrightarrow> \<not> authenticated teacher_username s"
    by (simp add: authenticated_def)
  have b: "\<And>u. teacher_username = Some u \<Longrightarrow> \<not> known_teacher u s \<Longrightarrow> \<not> authenticated teacher_username s"
    by (simp add: authenticated_def)
  show ?thesis
    using a b
    by (auto simp: create_unauth update_unauth delete_unauth auth_detail_def)
qed

theorem unauthenticated_is_401_witness:
  "\<not> known_teacher ''mallory'' sample_db
   \<and> fst (create_announcement sample_env ''Hello'' ''2025-06-10T00:00:00'' None None sample_db)
       = Inl (HTTPException 401 ''Authentication required'')
   \<and> http_status (fst (delete_announcement sample_env ''665f00000000000000000001''
        (Some ''mallory'') sample_db)) = 401"
proof -
  have h: "\<not> known_teacher ''mallory'' sample_db"
    by (simp add: known_teacher_def sample_db_def)
  from unauthenticated_is_401[of None sample_env "''Hello''" "''2025-06-10T00:00:00''" None sample_db]
  have 1: "fst (create_announcement sample_env ''Hello'' ''2025-06-10T00:00:00'' None None sample_db)
       = Inl (HTTPException 401 ''Authentication required'')" by simp
  from unauthenticated_is_401[of "Some ''mallory''" sample_env _ _ _ sample_db "''665f00000000000000000001''"] h
  have 2: "http_status (fst (delete_announcement sample_env ''665f00000000000000000001''
        (Some ''mallory'') sample_db)) = 401" by simp
  from h 1 2 show ?thesis by simp
qed

subsection \<open>Listing\<close>

lemma matches_active_query: "matches (active_query T) A = spec_active T A"
  by (simp add: active_query_def spec_active_def split: option.splits bson.splits)

lemma collect_ok:
  "list_all (\<lambda>d. map_of d ''_id'' \<noteq> None) ds \<Longrightarrow>
   \<exists>outs. collect E ds acc = Inr (acc @ outs)
          \<and> list_all2 (\<lambda>A out. to_response E A = Inr out) ds outs"
proof (induction ds arbitrary: acc)
  case Nil
  then show ?case by simp
next
  case (Cons d ds)
  then obtain i where i: "map_of d ''_id'' = Some i" by auto
  then obtain out where out: "to_response E d = Inr out" by (simp add: to_response_def)
  from Cons.prems have "list_all (\<lambda>d. map_of d ''_id'' \<noteq> None) ds" by simp
  from Cons.IH[OF this, of "acc @ [out]"] obtain outs where
    "collect E ds (acc @ [out]) = Inr ((acc @ [out]) @ outs)"
    "list_all2 (\<lambda>A out. to_response E A = Inr out) ds outs" by blast
  with out show ?case by (intro exI[of _ "out # outs"]) simp
qed

lemma sorted_dates_of_keys:
  assumes "sorted (map (sort_field ''end_date'') ds)"
      and "\<forall>d \<in> set ds. end_date_of d \<noteq> None"
  shows "sorted_wrt (\<lambda>A B. \<exists>a b. end_date_of A = Some a \<and> end_date_of B = Some b \<and> a \<le> b) ds"
proof -
  have key: "\<And>d e. end_date_of d = Some e \<Longrightarrow> sort_field ''end_date'' d = (3, [], 0, e)"
    by (auto simp: end_date_of_def sort_field_def split: option.splits bson.splits)
  from assms(1) have "sorted_wrt (\<lambda>A B. sort_field ''end_date'' A \<le> sort_field ''end_date'' B) ds"
    by (simp add: sorted_map)
  then show ?thesis
  proof (rule sorted_wrt_mono_rel[rotated])
    fix A B assume "A \<in> set ds" "B \<in> set ds"
      and le: "sort_field ''end_date'' A \<le> sort_field ''end_date'' B"
    from assms(2) \<open>A \<in> set ds\<close> obtain a where a: "end_date_of A = Some a" by auto
    from assms(2) \<open>B \<in> set ds\<close> obtain b where b: "end_date_of B = Some b" by auto
    note ab = a b
    with le key[OF ab(1)] key[OF ab(2)] have "a \<le> b" by simp
    with ab show "\<exists>a b. end_date_of A = Some a \<and> end_date_of B = Some b \<and> a \<le> b" by simp
  qed
qed

lemma spec_active_end_date: "spec_active T A \<Longrightarrow> end_date_of A \<noteq> None"
  by (auto simp: spec_active_def end_date_of_def split: option.splits bson.splits)

text \<open>The cursor of the active listing at reference time \<open>T\<close>.\<close>

lemma active_cursor:
  "find_sort Announcements (active_query T) ''end_date'' 1 s
     = (sort_key (sort_field ''end_date'') (filter (spec_active T) (announcements_collection s)),
        log_call Announcements Find s)"
  by (simp add: find_sort_def coll_docs_def matches_active_query[abs_def] Let_def)

lemma active_at:
  assumes "reference_time E now = Inr T" and "has_ids s"
  shows "\<exists>ds outs. fst (get_active_announcements E now s) = Inr outs
           \<and> list_all2 (\<lambda>A out. to_response E A = Inr out) ds outs
           \<and> (\<forall>A. A \<in> set ds \<longleftrightarrow> A \<in> set (announcements_collection s) \<and> spec_active T A)
           \<and> sorted_wrt (\<lambda>A B. \<exists>a b. end_date_of A = Some a \<and> end_date_of B = Some b \<and> a \<le> b) ds"
proof -
  let ?ds = "sort_key (sort_field ''end_date'') (filter (spec_active T) (announcements_collection s))"
  have mem: "\<forall>A. A \<in> set ?ds \<longleftrightarrow> A \<in> set (announcements_collection s) \<and> spec_active T A"
    by auto
  from assms(2) have "list_all (\<lambda>d. map_of d ''_id'' \<noteq> None) ?ds"
    by (auto simp: has_ids_def list_all_iff)
  from collect_ok[OF this, of E "[]"] obtain outs where
    outs: "collect E ?ds [] = Inr outs" "list_all2 (\<lambda>A out. to_response E A = Inr out) ?ds outs"
    by auto
  have res: "fst (get_active_announcements E now s) = Inr outs"
    using assms(1) outs(1) active_cursor[of T s]
    by (simp add: get_active_announcements_def)
  have "sorted (map (sort_field ''end_date'') ?ds)" by simp
  moreover have "\<forall>d \<in> set ?ds. end_date_of d \<noteq> None" by (auto dest: spec_active_end_date)
  ultimately have "sorted_wrt (\<lambda>A B. \<exists>a b. end_date_of A = Some a \<and> end_date_of B = Some b \<and> a \<le> b) ?ds"
    by (rule sorted_dates_of_keys)
  with res outs(2) mem show ?thesis by blast
qed


lemma map_of_serialize_key:
  "map_of (serialize_key E key d) k = (if k = key then iso_value E (map_of d k) else map_of d k)"
  by (auto simp: serialize_key_def iso_value_def update_conv' split: option.splits bson.splits)

lemma iso_value_idem: "iso_value E (iso_value E v) = iso_value E v"
  by (auto simp: iso_value_def split: option.splits bson.splits)

lemma map_of_fold_serialize_key:
  "map_of (fold (serialize_key E) keys d) k
     = (if k \<in> set keys then iso_value E (map_of d k) else map_of d k)"
  by (induction keys arbitrary: d) (auto simp: map_of_serialize_key iso_value_idem)

lemma map_of_serialize_dates:
  "map_of (serialize_dates E d) k
     = (if k \<in> set date_keys then iso_value E (map_of d k) else map_of d k)"
  by (simp add: serialize_dates_def map_of_fold_serialize_key)

lemma to_response_serialized:
  assumes "to_response E A = Inr out"
  shows "serialized E A out"
proof -
  from assms obtain i where i: "map_of A ''_id'' = Some i"
    and out: "out = serialize_dates E (AList.update ''id'' (BString (py_str E i)) (AList.delete ''_id'' A))"
    by (auto simp: to_response_def split: option.splits)
  show ?thesis
    unfolding serialized_def out
    by (simp add: i map_of_serialize_dates date_keys_def update_conv' delete_conv')
qed

lemma all_cursor:
  "find_sort Announcements (And []) ''end_date'' (- 1) s
     = (rev (sort_key (sort_field ''end_date'') (announcements_collection s)),
        log_call Announcements Find s)"
  by (simp add: find_sort_def coll_docs_def Let_def)

lemma sorted_desc_dates_of_keys:
  assumes "sorted (rev (map (sort_field ''end_date'') ds))"
  shows "sorted_wrt (\<lambda>A B. case (end_date_of A, end_date_of B) of
                              (Some a, Some b) \<Rightarrow> b \<le> a | _ \<Rightarrow> True) ds"
proof -
  have key: "\<And>d e. end_date_of d = Some e \<Longrightarrow> sort_field ''end_date'' d = (3, [], 0, e)"
    by (auto simp: end_date_of_def sort_field_def split: option.splits bson.splits)
  from assms have "sorted_wrt (\<lambda>A B. sort_field ''end_date'' B \<le> sort_field ''end_date'' A) ds"
    by (simp add: sorted_wrt_rev sorted_map rev_map[symmetric] sorted_wrt_map)
  then show ?thesis
  proof (rule sorted_wrt_mono_rel[rotated])
    fix A B assume le: "sort_field ''end_date'' B \<le> sort_field ''end_date'' A"
    show "case (end_date_of A, end_date_of B) of (Some a, Some b) \<Rightarrow> b \<le> a | _ \<Rightarrow> True"
      using le by (auto simp: key split: option.splits)
  qed
qed

subsection \<open>The store keeps its identifiers\<close>

lemma set_fields_keeps_id:
  "map_of d ''_id'' \<noteq> None \<Longrightarrow> map_of (set_fields upd d) ''_id'' \<noteq> None"
  by (induction upd arbitrary: d) (auto simp: update_conv')

lemma list_all_update_first:
  "list_all Q ds \<Longrightarrow> (\<And>d. Q d \<Longrightarrow> Q (f d)) \<Longrightarrow> list_all Q (update_first P f ds)"
  by (induction ds) auto

lemma update_first_keeps_ids:
  "list_all (\<lambda>d. map_of d ''_id'' \<noteq> None) ds \<Longrightarrow>
   list_all (\<lambda>d. map_of d ''_id'' \<noteq> None) (update_first P (set_fields upd) ds)"
  by (rule list_all_update_first) (simp_all add: set_fields_keeps_id del: not_None_eq)

lemma list_all_remove_first:
  "list_all Q ds \<Longrightarrow> list_all Q (remove_first P ds)"
  by (induction ds) auto

text \<open>
  Every handler leaves a store whose announcements all carry \<open>_id\<close>, when it
  starts from one.
\<close>

lemma listing_keeps_store:
  "announcements_collection (snd (get_active_announcements E now s)) = announcements_collection s"
  "announcements_collection (snd (list_announcements E s)) = announcements_collection s"
  by (auto simp: get_active_announcements_def list_announcements_def find_sort_def log_call_def
        Let_def split: sum.splits)

lemma has_ids_create:
  assumes "has_ids s"
  shows "has_ids (snd (create_announcement E message end_date start_date user s))"
proof (cases "authenticated user s")
  case False
  with assms show ?thesis by (simp add: create_unauth has_ids_def auth_state_def log_call_def)
next
  case True
  with assms show ?thesis
    by (auto simp: create_announcement_def require_teacher_ok has_ids_def log_call_def
          insert_one_def find_one_def set_docs_def coll_docs_def Let_def
        split: sum.splits option.splits if_splits)
qed

lemma has_ids_update:
  assumes "has_ids s"
  shows "has_ids (snd (update_announcement E aid message end_date start_date user s))"
proof (cases "authenticated user s")
  case False
  with assms show ?thesis by (simp add: update_unauth has_ids_def auth_state_def log_call_def)
next
  case True
  with assms show ?thesis
    by (auto simp: update_announcement_def require_teacher_ok has_ids_def log_call_def
          update_one_def find_one_def set_docs_def coll_docs_def Let_def
          update_first_keeps_ids
        simp del: not_None_eq
        split: sum.splits option.splits if_splits)
qed

lemma has_ids_delete:
  assumes "has_ids s"
  shows "has_ids (snd (delete_announcement E aid user s))"
proof (cases "authenticated user s")
  case False
  with assms show ?thesis by (simp add: delete_unauth has_ids_def auth_state_def log_call_def)
next
  case True
  with assms show ?thesis
    by (auto simp: delete_announcement_def require_teacher_ok has_ids_def log_call_def
          delete_one_def set_docs_def coll_docs_def Let_def list_all_remove_first
        split: sum.splits option.splits if_splits)
qed

subsection \<open>Claims on listing\<close>

text \<open>
  C1. For every stored announcement \<open>A\<close> and reference time \<open>T\<close>, \<open>A\<close> appears in
  the result of list-active(\<open>T\<close>) if and only if \<open>A.end_date \<ge> T\<close> and \<open>A.start_date\<close>
  is absent, null or \<open>\<le> T\<close>; the result is ordered by \<open>end_date\<close> ascending, each
  record serialized.
\<close>

theorem list_active_iff_active_sorted:
  assumes "(now = None \<or> now = Some []) \<and> utcnow E = T
           \<or> (\<exists>n. now = Some n \<and> n \<noteq> [] \<and> fromisoformat E n = Some T)"
      and "has_ids s"
  shows "\<exists>ds outs. fst (get_active_announcements E now s) = Inr outs
           \<and> list_all2 (serialized E) ds outs
           \<and> (\<forall>A. A \<in> set ds \<longleftrightarrow> A \<in> set (announcements_collection s) \<and> spec_active T A)
           \<and> sorted_wrt (\<lambda>A B. \<exists>a b. end_date_of A = Some a \<and> end_date_of B = Some b \<and> a \<le> b) ds"
proof -
  from assms(1) have "reference_time E now = Inr T"
    by (auto simp: reference_time_def)
  from active_at[OF this assms(2)] obtain ds outs where
    *: "fst (get_active_announcements E now s) = Inr outs"
       "list_all2 (\<lambda>A out. to_response E A = Inr out) ds outs"
       "\<forall>A. A \<in> set ds \<longleftrightarrow> A \<in> set (announcements_collection s) \<and> spec_active T A"
       "sorted_wrt (\<lambda>A B. \<exists>a b. end_date_of A = Some a \<and> end_date_of B = Some b \<and> a \<le> b) ds"
    by blast
  from *(2) have "list_all2 (serialized E) ds outs"
    by (rule list_all2_mono) (rule to_response_serialized)
  with * show ?thesis by blast
qed

theorem list_active_iff_active_sorted_witness:
  "has_ids sample_db
   \<and> fromisoformat sample_env ''2025-06-05T00:00:00'' = Some 1749081600
   \<and> (\<exists>ds outs. fst (get_active_announcements sample_env (Some ''2025-06-05T00:00:00'') sample_db) = Inr outs
           \<and> list_all2 (serialized sample_env) ds outs
           \<and> (\<forall>A. A \<in> set ds \<longleftrightarrow> A \<in> set (announcements_collection sample_db) \<and> spec_active 1749081600 A)
           \<and> sorted_wrt (\<lambda>A B. \<exists>a b. end_date_of A = Some a \<and> end_date_of B = Some b \<and> a \<le> b) ds)
   \<and> spec_active 1749081600 (announcements_collection sample_db ! 0)
   \<and> \<not> spec_active 1749081600 (announcements_collection sample_db ! 1)
   \<and> spec_active 1749081600 (announcements_collection sample_db ! 2)"
proof -
  have h1: "has_ids sample_db" by (simp add: has_ids_def sample_db_def)
  have h2: "fromisoformat sample_env ''2025-06-05T00:00:00'' = Some 1749081600"
    by (simp add: sample_env_def)
  have h3: "spec_active 1749081600 (announcements_collection sample_db ! 0)
   \<and> \<not> spec_active 1749081600 (announcements_collection sample_db ! 1)
   \<and> spec_active 1749081600 (announcements_collection sample_db ! 2)"
    by (simp add: spec_active_def sample_db_def)
  from list_active_iff_active_sorted[of "Some ''2025-06-05T00:00:00''" sample_env 1749081600 sample_db] h1 h2 h3
  show ?thesis by simp
qed

text \<open>
  C7. list-all returns every stored announcement (no filtering), ordered by
  \<open>end_date\<close> descending, with the serialization of list-active (identifier as a
  string, dates as ISO-8601 strings).
\<close>

theorem list_all_every_sorted_desc:
  assumes "has_ids s"
  shows "\<exists>ds outs. fst (list_announcements E s) = Inr outs
           \<and> list_all2 (\<lambda>A out. to_response E A = Inr out \<and> serialized E A out) ds outs
           \<and> mset ds = mset (announcements_collection s)
           \<and> sorted (rev (map (sort_field ''end_date'') ds))
           \<and> sorted_wrt (\<lambda>A B. case (end_date_of A, end_date_of B) of
                                   (Some a, Some b) \<Rightarrow> b \<le> a | _ \<Rightarrow> True) ds"
proof -
  let ?ds = "rev (sort_key (sort_field ''end_date'') (announcements_collection s))"
  from assms have "list_all (\<lambda>d. map_of d ''_id'' \<noteq> None) ?ds"
    by (auto simp: has_ids_def list_all_iff)
  from collect_ok[OF this, of E "[]"] obtain outs where
    outs: "collect E ?ds [] = Inr outs" "list_all2 (\<lambda>A out. to_response E A = Inr out) ?ds outs"
    by auto
  have res: "fst (list_announcements E s) = Inr outs"
    using outs(1) by (simp add: list_announcements_def all_cursor)
  from outs(2) have ser: "list_all2 (\<lambda>A out. to_response E A = Inr out \<and> serialized E A out) ?ds outs"
    by (rule list_all2_mono) (simp add: to_response_serialized)
  have ms: "mset ?ds = mset (announcements_collection s)" by simp
  have so: "sorted (rev (map (sort_field ''end_date'') ?ds))"
    by (simp add: rev_map)
  from so have "sorted_wrt (\<lambda>A B. case (end_date_of A, end_date_of B) of
                                   (Some a, Some b) \<Rightarrow> b \<le> a | _ \<Rightarrow> True) ?ds"
    by (rule sorted_desc_dates_of_keys)
  with res ser ms so show ?thesis by blast
qed

theorem list_all_every_sorted_desc_witness:
  "has_ids sample_db
   \<and> (\<exists>ds outs. fst (list_announcements sample_env sample_db) = Inr outs
           \<and> list_all2 (\<lambda>A out. to_response sample_env A = Inr out \<and> serialized sample_env A out) ds outs
           \<and> mset ds = mset (announcements_collection sample_db)
           \<and> sorted (rev (map (sort_field ''end_date'') ds))
           \<and> sorted_wrt (\<lambda>A B. case (end_date_of A, end_date_of B) of
                                   (Some a, Some b) \<Rightarrow> b \<le> a | _ \<Rightarrow> True) ds)"
proof -
  have h: "has_ids sample_db" by (simp add: has_ids_def sample_db_def)
  from list_all_every_sorted_desc[OF h, of sample_env] h show ?thesis by simp
qed

text \<open>
  C3 as amended. When \<open>now\<close> is absent or empty the reference time of list-active is
  the current UTC instant; when \<open>now\<close> is non-empty and not parseable as ISO-8601
  the request fails with the parser's \<open>ValueError\<close>, which is no \<open>HTTPException\<close>
  (the status is 500, not 400), and no query reaches the store.
\<close>

theorem list_active_reference_time:
  "((now = None \<or> now = Some []) \<and> has_ids s \<longrightarrow>
      (\<exists>ds outs. fst (get_active_announcements E now s) = Inr outs
         \<and> list_all2 (serialized E) ds outs
         \<and> (\<forall>A. A \<in> set ds \<longleftrightarrow> A \<in> set (announcements_collection s) \<and> spec_active (utcnow E) A)))
   \<and> (\<forall>n. now = Some n \<and> n \<noteq> [] \<and> fromisoformat E n = None \<longrightarrow>
        get_active_announcements E now s = (Inl ValueError, s)
        \<and> http_status (fst (get_active_announcements E now s)) = 500)"
proof (intro conjI impI allI)
  assume a: "(now = None \<or> now = Some []) \<and> has_ids s"
  then have "reference_time E now = Inr (utcnow E)"
    by (auto simp: reference_time_def)
  from active_at[OF this] a obtain ds outs where
    *: "fst (get_active_announcements E now s) = Inr outs"
       "list_all2 (\<lambda>A out. to_response E A = Inr out) ds outs"
       "\<forall>A. A \<in> set ds \<longleftrightarrow> A \<in> set (announcements_collection s) \<and> spec_active (utcnow E) A"
    by blast
  from *(2) have "list_all2 (serialized E) ds outs"
    by (rule list_all2_mono) (rule to_response_serialized)
  with * show "\<exists>ds outs. fst (get_active_announcements E now s) = Inr outs
         \<and> list_all2 (serialized E) ds outs
         \<and> (\<forall>A. A \<in> set ds \<longleftrightarrow> A \<in> set (announcements_collection s) \<and> spec_active (utcnow E) A)"
    by blast
next
  fix n assume b: "now = Some n \<and> n \<noteq> [] \<and> fromisoformat E n = None"
  then show r: "get_active_announcements E now s = (Inl ValueError, s)"
    by (simp add: get_active_announcements_def reference_time_def)
  show "http_status (fst (get_active_announcements E now s)) = 500"
    by (simp add: r)
qed

theorem list_active_reference_time_witness:
  "has_ids sample_db
   \<and> (\<exists>ds outs. fst (get_active_announcements sample_env (Some []) sample_db) = Inr outs
         \<and> list_all2 (serialized sample_env) ds outs
         \<and> (\<forall>A. A \<in> set ds \<longleftrightarrow> A \<in> set (announcements_collection sample_db)
                                  \<and> spec_active (utcnow sample_env) A))
   \<and> fromisoformat sample_env ''next monday'' = None
   \<and> get_active_announcements sample_env (Some ''next monday'') sample_db = (Inl ValueError, sample_db)
   \<and> http_status (fst (get_active_announcements sample_env (Some ''next monday'') sample_db)) = 500"
proof -
  have h1: "has_ids sample_db" by (simp add: has_ids_def sample_db_def)
  have h2: "fromisoformat sample_env ''next monday'' = None" by (simp add: sample_env_def)
  from list_active_reference_time[of "Some []" sample_db sample_env]
       list_active_reference_time[of "Some ''next monday''" sample_db sample_env] h1 h2
  show ?thesis by simp
qed

text \<open>
  C3 as stated fails on an empty \<open>now\<close>: it is present and no ISO-8601 string, and
  the request succeeds with the answer of a request without \<open>now\<close>.
\<close>

theorem list_active_empty_now_counterexample:
  "fromisoformat sample_env [] = None
   \<and> http_status (fst (get_active_announcements sample_env (Some []) sample_db)) = 200
   \<and> get_active_announcements sample_env (Some []) sample_db
       = get_active_announcements sample_env None sample_db"
  by (simp add: get_active_announcements_def reference_time_def sample_env_def sample_db_def
        find_sort_def active_query_def coll_docs_def log_call_def to_response_def
        serialize_dates_def serialize_key_def date_keys_def sort_field_def)

subsection \<open>The store\<close>

lemma matches_id: "matches (Field ''_id'' (Eq (BObjectId i))) = (\<lambda>d. map_of d ''_id'' = Some (BObjectId i))"
  by (rule ext) simp

lemma find_append:
  "List.find P (xs @ ys) = (case List.find P xs of None \<Rightarrow> List.find P ys | Some x \<Rightarrow> Some x)"
  by (induction xs) auto

lemma list_ex_find: "list_ex P xs \<longleftrightarrow> List.find P xs \<noteq> None"
  by (auto simp: list_ex_iff find_None_iff)

lemma le_foldr_max: "i \<in> set xs \<Longrightarrow> i \<le> foldr max xs (0::nat)"
  by (induction xs) (auto simp: max_def)

lemma fresh_oid_fresh:
  "List.find (\<lambda>d. map_of d ''_id'' = Some (BObjectId (fresh_oid ds))) ds = None"
proof -
  have "\<And>d. d \<in> set ds \<Longrightarrow> map_of d ''_id'' \<noteq> Some (BObjectId (fresh_oid ds))"
  proof
    fix d assume d: "d \<in> set ds" and eq: "map_of d ''_id'' = Some (BObjectId (fresh_oid ds))"
    then have "fresh_oid ds \<in> set (oids ds)"
      by (force simp: oids_def)
    then have "fresh_oid ds \<le> foldr max (oids ds) 0" by (rule le_foldr_max)
    then show False by (simp add: fresh_oid_def)
  qed
  then show ?thesis by (simp add: find_None_iff)
qed

text \<open>What a successful create leaves in the store.\<close>

lemma create_ok:
  assumes "authenticated user s" and "strip message \<noteq> []"
      and "end_date \<noteq> []" and "fromisoformat E end_date = Some e"
      and "parse_datetime E start_date = Inr sd"
  shows "create_announcement E message end_date start_date user s =
           (to_response E (created_doc E message sd e s),
            s\<lparr>announcements_collection := announcements_collection s @ [created_doc E message sd e s],
              calls := calls s @ [(Teachers, FindOne), (Announcements, InsertOne), (Announcements, FindOne)]\<rparr>)"
proof -
  have m: "message \<noteq> []" using assms(2) by (auto simp: strip_def)
  have p: "parse_datetime E (Some end_date) = Inr (Some e)"
    using assms(3,4) by (simp add: parse_datetime_def)
  let ?s1 = "log_call Teachers FindOne s"
  let ?d = "created_doc E message sd e s"
  have f: "List.find (\<lambda>d. map_of d ''_id'' = Some (BObjectId (fresh_oid (announcements_collection s))))
             (announcements_collection s @ [?d]) = Some ?d"
    by (simp add: find_append fresh_oid_fresh created_doc_def)
  show ?thesis
    using m assms(2,5) p f
    by (simp add: create_announcement_def require_teacher_ok[OF assms(1)] insert_one_def
          find_one_def coll_docs_def set_docs_def log_call_def Let_def matches_id created_doc_def)
qed

lemma to_response_created:
  "to_response E (created_doc E message sd e s) =
     Inr (serialize_dates E (announcement_doc message sd e (utcnow E)
            @ [(''id'', BString (str_ObjectId E (fresh_oid (announcements_collection s))))]))"
  by (simp add: to_response_def created_doc_def announcement_doc_def)

text \<open>A create that returns went through every check.\<close>

lemma create_Inr:
  assumes "fst (create_announcement E message end_date start_date user s) = Inr out"
  shows "authenticated user s \<and> strip message \<noteq> [] \<and> end_date \<noteq> []
         \<and> (\<exists>e sd. fromisoformat E end_date = Some e \<and> parse_datetime E start_date = Inr sd)"
proof -
  have a: "authenticated user s"
  proof (rule ccontr)
    assume "\<not> authenticated user s"
    from create_unauth[OF this] assms show False by simp
  qed
  note rt = require_teacher_ok[OF a]
  have m: "strip message \<noteq> []"
    using assms by (auto simp: create_announcement_def rt split: if_splits)
  have e: "end_date \<noteq> []"
    using assms m by (auto simp: create_announcement_def rt parse_datetime_def split: if_splits)
  have pe: "\<exists>t. fromisoformat E end_date = Some t"
    using assms m e
    by (cases "fromisoformat E end_date") (auto simp: create_announcement_def rt parse_datetime_def split: if_splits)
  have ps: "\<exists>sd. parse_datetime E start_date = Inr sd"
    using assms m e pe
    by (cases "parse_datetime E start_date")
       (auto simp: create_announcement_def rt parse_datetime_def[of E "Some end_date"] split: if_splits)
  from a m e pe ps show ?thesis by blast
qed


lemma stored_created:
  assumes "authenticated user s" and "strip message \<noteq> []"
      and "end_date \<noteq> []" and "fromisoformat E end_date = Some e"
      and "parse_datetime E start_date = Inr sd"
  shows "stored (fresh_oid (announcements_collection s))
           (snd (create_announcement E message end_date start_date user s))
         = Some (created_doc E message sd e s)"
  by (simp add: create_ok[OF assms] stored_def find_append fresh_oid_fresh)
     (simp add: created_doc_def)

lemma parse_datetime_cases:
  "parse_datetime E v = Inr sd \<longleftrightarrow>
     ((v = None \<or> v = Some []) \<and> sd = None)
     \<or> (\<exists>x. v = Some x \<and> x \<noteq> [] \<and> fromisoformat E x = sd \<and> sd \<noteq> None)"
  by (auto simp: parse_datetime_def split: option.splits)

subsection \<open>Claims on create\<close>

text \<open>
  C2 as amended. For every create that succeeds, the record read back has the
  supplied message with its surrounding whitespace stripped, the \<open>end_date\<close> that
  the supplied string parses to and the \<open>start_date\<close> that the supplied string
  parses to (null when \<open>start_date\<close> is absent or empty), and the response gives the
  dates in ISO-8601 format.
\<close>

theorem create_read_back:
  assumes "fst (create_announcement E message end_date start_date user s) = Inr out"
  shows "\<exists>e sd. fromisoformat E end_date = Some e
           \<and> sd = (case start_date of None \<Rightarrow> None | Some x \<Rightarrow> if x = [] then None else fromisoformat E x)
           \<and> stored (fresh_oid (announcements_collection s))
               (snd (create_announcement E message end_date start_date user s))
               = Some (created_doc E message sd e s)
           \<and> map_of (created_doc E message sd e s) ''message'' = Some (BString (strip message))
           \<and> map_of (created_doc E message sd e s) ''start_date'' = Some (opt_date sd)
           \<and> map_of (created_doc E message sd e s) ''end_date'' = Some (BDate e)
           \<and> map_of out ''message'' = Some (BString (strip message))
           \<and> map_of out ''start_date''
               = Some (case sd of None \<Rightarrow> BNull | Some b \<Rightarrow> BString (isoformat E b))
           \<and> map_of out ''end_date'' = Some (BString (isoformat E e))"
proof -
  from create_Inr[OF assms] obtain e sd where
    a: "authenticated user s" and m: "strip message \<noteq> []" and ne: "end_date \<noteq> []"
    and e: "fromisoformat E end_date = Some e" and sd: "parse_datetime E start_date = Inr sd"
    by blast
  from sd have sd': "sd = (case start_date of None \<Rightarrow> None | Some x \<Rightarrow> if x = [] then None else fromisoformat E x)"
    by (auto simp: parse_datetime_cases)
  have st: "stored (fresh_oid (announcements_collection s))
               (snd (create_announcement E message end_date start_date user s))
               = Some (created_doc E message sd e s)"
    by (rule stored_created[OF a m ne e sd])
  have fields: "map_of (created_doc E message sd e s) ''message'' = Some (BString (strip message))"
    "map_of (created_doc E message sd e s) ''start_date'' = Some (opt_date sd)"
    "map_of (created_doc E message sd e s) ''end_date'' = Some (BDate e)"
    by (simp_all add: created_doc_def announcement_doc_def)
  from assms have out: "to_response E (created_doc E message sd e s) = Inr out"
    by (simp add: create_ok[OF a m ne e sd])
  from to_response_serialized[OF out] fields
  have o: "map_of out ''message'' = Some (BString (strip message))"
    "map_of out ''start_date'' = Some (case sd of None \<Rightarrow> BNull | Some b \<Rightarrow> BString (isoformat E b))"
    "map_of out ''end_date'' = Some (BString (isoformat E e))"
    by (simp_all add: serialized_def iso_value_def opt_date_def split: option.splits)
  from e sd' st fields o show ?thesis by blast
qed

theorem create_read_back_witness:
  "fst (create_announcement sample_env ''  Hi '' ''2025-06-10T00:00:00''
          (Some ''2025-06-05T00:00:00'') (Some ''jwilson'') sample_db)
   = Inr [(''message'', BString ''Hi''),
          (''start_date'', BString ''2025-06-05T00:00:00''),
          (''end_date'', BString ''2025-06-10T00:00:00''),
          (''created_at'', BString ''2025-06-06T00:00:00''),
          (''updated_at'', BString ''2025-06-06T00:00:00''),
          (''id'', BString ''665f00000000000000000004'')]
   \<and> strip ''  Hi '' = ''Hi''
   \<and> stored 4 (snd (create_announcement sample_env ''  Hi '' ''2025-06-10T00:00:00''
          (Some ''2025-06-05T00:00:00'') (Some ''jwilson'') sample_db))
       = Some (created_doc sample_env ''  Hi '' (Some 1749081600) 1749513600 sample_db)
   \<and> map_of (created_doc sample_env ''  Hi '' (Some 1749081600) 1749513600 sample_db) ''end_date''
       = Some (BDate 1749513600)"
proof -
  have h: "fst (create_announcement sample_env ''  Hi '' ''2025-06-10T00:00:00''
          (Some ''2025-06-05T00:00:00'') (Some ''jwilson'') sample_db)
   = Inr [(''message'', BString ''Hi''),
          (''start_date'', BString ''2025-06-05T00:00:00''),
          (''end_date'', BString ''2025-06-10T00:00:00''),
          (''created_at'', BString ''2025-06-06T00:00:00''),
          (''updated_at'', BString ''2025-06-06T00:00:00''),
          (''id'', BString ''665f00000000000000000004'')]"
    by (simp add: create_announcement_def require_teacher_def find_one_def insert_one_def
        coll_docs_def set_docs_def log_call_def Let_def sample_env_def sample_db_def
        strip_def isspace_def parse_datetime_def announcement_doc_def opt_date_def
        fresh_oid_def oids_def to_response_def serialize_dates_def serialize_key_def date_keys_def)
  have f: "fresh_oid (announcements_collection sample_db) = 4"
    by (simp add: fresh_oid_def oids_def sample_db_def)
  have p: "fromisoformat sample_env ''2025-06-10T00:00:00'' = Some 1749513600"
    "fromisoformat sample_env ''2025-06-05T00:00:00'' = Some 1749081600"
    by (simp_all add: sample_env_def)
  have st: "strip ''  Hi '' = ''Hi''" by (simp add: strip_def isspace_def)
  from create_read_back[OF h] obtain e sd where
    e: "fromisoformat sample_env ''2025-06-10T00:00:00'' = Some e"
    and sd: "sd = (case Some ''2025-06-05T00:00:00'' of None \<Rightarrow> None
                   | Some x \<Rightarrow> if x = [] then None else fromisoformat sample_env x)"
    and s1: "stored (fresh_oid (announcements_collection sample_db))
               (snd (create_announcement sample_env ''  Hi '' ''2025-06-10T00:00:00''
                  (Some ''2025-06-05T00:00:00'') (Some ''jwilson'') sample_db))
             = Some (created_doc sample_env ''  Hi '' sd e sample_db)"
    and s2: "map_of (created_doc sample_env ''  Hi '' sd e sample_db) ''end_date'' = Some (BDate e)"
    by blast
  from e p(1) have e': "e = 1749513600" by simp
  from sd p(2) have sd': "sd = Some 1749081600" by simp
  from s1 have t1: "stored 4
       (snd (create_announcement sample_env ''  Hi '' ''2025-06-10T00:00:00''
          (Some ''2025-06-05T00:00:00'') (Some ''jwilson'') sample_db))
       = Some (created_doc sample_env ''  Hi '' (Some 1749081600) 1749513600 sample_db)"
    unfolding e' sd' f .
  from s2 have t2: "map_of (created_doc sample_env ''  Hi '' (Some 1749081600) 1749513600 sample_db) ''end_date''
       = Some (BDate 1749513600)"
    unfolding e' sd' .
  from h st t1 t2 show ?thesis by (intro conjI)
qed

text \<open>
  C2 as stated fails on a message with surrounding whitespace: the record read
  back holds the stripped message, not the supplied one.
\<close>

theorem create_message_stripped_counterexample:
  "response_field ''message''
     (fst (create_announcement sample_env ''  Hi '' ''2025-06-10T00:00:00''
          (Some ''2025-06-05T00:00:00'') (Some ''jwilson'') sample_db)) = Some (BString ''Hi'')
   \<and> response_field ''message''
     (fst (create_announcement sample_env ''  Hi '' ''2025-06-10T00:00:00''
          (Some ''2025-06-05T00:00:00'') (Some ''jwilson'') sample_db)) \<noteq> Some (BString ''  Hi '')"
  by (simp add: create_announcement_def require_teacher_def find_one_def insert_one_def
        coll_docs_def set_docs_def log_call_def Let_def sample_env_def sample_db_def
        strip_def isspace_def parse_datetime_def announcement_doc_def opt_date_def
        fresh_oid_def oids_def to_response_def serialize_dates_def serialize_key_def date_keys_def
        response_field_def)

subsection \<open>Update and delete\<close>

lemma map_of_set_fields:
  "distinct (map fst upd) \<Longrightarrow> map_of (set_fields upd d) = map_of d ++ map_of upd"
proof (induction upd arbitrary: d)
  case Nil
  then show ?case by simp
next
  case (Cons kv kvs)
  obtain k v where kv: "kv = (k, v)" by (cases kv)
  with Cons.prems have k: "k \<notin> dom (map_of kvs)" and d: "distinct (map fst kvs)"
    by (auto simp: dom_map_of_conv_image_fst)
  have "map_of (set_fields (kv # kvs) d) = map_of (AList.update k v d) ++ map_of kvs"
    by (simp add: kv Cons.IH[OF d])
  also have "\<dots> = (map_of d)(k \<mapsto> v) ++ map_of kvs"
    by (simp only: update_conv')
  also have "\<dots> = (map_of d ++ map_of kvs)(k \<mapsto> v)"
    using k by (rule map_add_upd_left)
  also have "\<dots> = map_of d ++ (map_of kvs)(k \<mapsto> v)"
    by (simp only: map_add_upd)
  also have "(map_of kvs)(k \<mapsto> v) = map_of (kv # kvs)"
    by (simp only: kv map_of.simps fst_conv snd_conv)
  finally show ?case .
qed

lemma find_update_first:
  "List.find P ds = Some old \<Longrightarrow> P (f old) \<Longrightarrow> List.find P (update_first P f ds) = Some (f old)"
  by (induction ds) (auto split: if_splits)

text \<open>The \<open>update\<close> dict of a request whose fields pass validation.\<close>

lemma build_update_Inr:
  assumes "build_update E message end_date start_date = Inr upd"
  shows "distinct (map fst upd)"
    and "map_of upd ''_id'' = None"
    and "map_of upd ''created_at'' = None"
    and "map_of upd ''updated_at'' = Some (BDate (utcnow E))"
    and "map_of upd ''message'' = map_option (\<lambda>m. BString (strip m)) message"
    and "map_of upd ''start_date''
           = map_option (\<lambda>x. opt_date (if x = [] then None else fromisoformat E x)) start_date"
    and "map_of upd ''end_date'' = Option.bind end_date (\<lambda>x. map_option BDate (fromisoformat E x))"
    and "\<forall>m. message = Some m \<longrightarrow> strip m \<noteq> []"
    and "\<forall>x. end_date = Some x \<longrightarrow> x \<noteq> [] \<and> fromisoformat E x \<noteq> None"
    and "\<forall>x. start_date = Some x \<and> x \<noteq> [] \<longrightarrow> fromisoformat E x \<noteq> None"
  using assms
  by (auto simp: build_update_def update_message_def update_start_date_def update_end_date_def
        parse_datetime_def opt_date_def update_conv' distinct_update
      split: option.splits if_splits sum.splits)

lemma build_update_Inl:
  "build_update E message end_date start_date = Inl e \<Longrightarrow> \<exists>detail. e = HTTPException 400 detail"
  by (auto simp: build_update_def update_message_def update_start_date_def update_end_date_def
        parse_datetime_def split: option.splits if_splits sum.splits)

lemma build_update_ok:
  assumes "message = None \<or> (\<exists>m. message = Some m \<and> strip m \<noteq> [])"
      and "start_date = None \<or> start_date = Some [] \<or> (\<exists>x. start_date = Some x \<and> fromisoformat E x \<noteq> None)"
      and "end_date = None \<or> (\<exists>x. end_date = Some x \<and> x \<noteq> [] \<and> fromisoformat E x \<noteq> None)"
  shows "\<exists>upd. build_update E message end_date start_date = Inr upd"
  using assms
  by (auto simp: build_update_def update_message_def update_start_date_def update_end_date_def
        parse_datetime_def split: option.splits if_splits sum.splits)


lemma update_invalid:
  assumes "authenticated user s" and "build_update E message end_date start_date = Inl e"
  shows "update_announcement E aid message end_date start_date user s
           = (Inl e, log_call Teachers FindOne s)"
  using assms(2) by (simp add: update_announcement_def require_teacher_ok[OF assms(1)])

lemma update_bad_id:
  assumes "authenticated user s" and "build_update E message end_date start_date = Inr upd"
      and "ObjectId E aid = None"
  shows "update_announcement E aid message end_date start_date user s
           = (Inl (HTTPException 400 ''Invalid announcement id''), log_call Teachers FindOne s)"
  using assms(2,3)
  by (simp add: update_announcement_def require_teacher_ok[OF assms(1)] to_object_id_def)

lemma update_not_found:
  assumes "authenticated user s" and "build_update E message end_date start_date = Inr upd"
      and "ObjectId E aid = Some i" and "stored i s = None"
  shows "fst (update_announcement E aid message end_date start_date user s)
           = Inl (HTTPException 404 ''Announcement not found'')"
  using assms(2,3,4)
  by (simp add: update_announcement_def require_teacher_ok[OF assms(1)] to_object_id_def
        update_one_def coll_docs_def log_call_def set_docs_def list_ex_find matches_id stored_def Let_def)

lemma update_ok:
  assumes "authenticated user s" and "build_update E message end_date start_date = Inr upd"
      and "ObjectId E aid = Some i" and "stored i s = Some old"
  shows "update_announcement E aid message end_date start_date user s
           = (to_response E (set_fields upd old),
              s\<lparr>announcements_collection :=
                  update_first (\<lambda>d. map_of d ''_id'' = Some (BObjectId i)) (set_fields upd)
                    (announcements_collection s),
                calls := calls s @ [(Teachers, FindOne), (Announcements, UpdateOne), (Announcements, FindOne)]\<rparr>)"
    and "stored i (snd (update_announcement E aid message end_date start_date user s))
           = Some (set_fields upd old)"
proof -
  let ?P = "\<lambda>d. map_of d ''_id'' = Some (BObjectId i)"
  from assms(4) have old: "List.find ?P (announcements_collection s) = Some old"
    by (simp add: stored_def)
  then have "?P old" by (auto simp: find_Some_iff)
  then have "?P (set_fields upd old)"
    by (simp add: map_of_set_fields[OF build_update_Inr(1)[OF assms(2)]] map_add_def
          build_update_Inr(2)[OF assms(2)])
  from find_update_first[of ?P "announcements_collection s" old "set_fields upd", OF old this]
  have new: "List.find ?P (update_first ?P (set_fields upd) (announcements_collection s))
               = Some (set_fields upd old)" .
  show 1: "update_announcement E aid message end_date start_date user s
           = (to_response E (set_fields upd old),
              s\<lparr>announcements_collection :=
                  update_first ?P (set_fields upd) (announcements_collection s),
                calls := calls s @ [(Teachers, FindOne), (Announcements, UpdateOne), (Announcements, FindOne)]\<rparr>)"
    using assms(2,3) old new
    by (simp add: update_announcement_def require_teacher_ok[OF assms(1)] to_object_id_def
          update_one_def find_one_def coll_docs_def log_call_def set_docs_def list_ex_find
          matches_id Let_def)
  show "stored i (snd (update_announcement E aid message end_date start_date user s))
           = Some (set_fields upd old)"
    using new by (simp add: 1 stored_def)
qed

text \<open>An update that returns went through every check and found its record.\<close>

lemma update_Inr:
  assumes "fst (update_announcement E aid message end_date start_date user s) = Inr out"
  shows "authenticated user s
         \<and> (\<exists>upd i old. build_update E message end_date start_date = Inr upd
               \<and> ObjectId E aid = Some i \<and> stored i s = Some old)"
proof -
  have a: "authenticated user s"
  proof (rule ccontr)
    assume "\<not> authenticated user s"
    from update_unauth[OF this] assms show False by simp
  qed
  obtain upd where upd: "build_update E message end_date start_date = Inr upd"
  proof (cases "build_update E message end_date start_date")
    case (Inl e)
    from update_invalid[OF a Inl] assms show ?thesis by simp
  next
    case (Inr u)
    then show ?thesis by (rule that)
  qed
  obtain i where i: "ObjectId E aid = Some i"
  proof (cases "ObjectId E aid")
    case None
    from update_bad_id[OF a upd None] assms show ?thesis by simp
  next
    case (Some j)
    then show ?thesis by (rule that)
  qed
  obtain old where old: "stored i s = Some old"
  proof (cases "stored i s")
    case None
    from update_not_found[OF a upd i None] assms show ?thesis by simp
  next
    case (Some d)
    then show ?thesis by (rule that)
  qed
  from a upd i old show ?thesis by blast
qed

lemma delete_bad_id:
  assumes "authenticated user s" and "ObjectId E aid = None"
  shows "delete_announcement E aid user s
           = (Inl (HTTPException 400 ''Invalid announcement id''), log_call Teachers FindOne s)"
  using assms(2)
  by (simp add: delete_announcement_def require_teacher_ok[OF assms(1)] to_object_id_def)

lemma to_response_Inr:
  "map_of A ''_id'' = Some i \<Longrightarrow> \<exists>out. to_response E A = Inr out"
  by (simp add: to_response_def)

lemma stored_has_id: "stored i s = Some d \<Longrightarrow> map_of d ''_id'' = Some (BObjectId i)"
  by (auto simp: stored_def find_Some_iff)

text \<open>With valid fields, the status of an update depends on the identifier alone.\<close>

lemma update_status:
  assumes "authenticated user s" and "build_update E message end_date start_date = Inr upd"
  shows "http_status (fst (update_announcement E aid message end_date start_date user s))
           = (case ObjectId E aid of None \<Rightarrow> 400
              | Some i \<Rightarrow> if stored i s = None then 404 else 200)"
proof (cases "ObjectId E aid")
  case None
  then show ?thesis by (simp add: update_bad_id[OF assms None])
next
  case (Some i)
  show ?thesis
  proof (cases "stored i s")
    case None
    then show ?thesis using Some by (simp add: update_not_found[OF assms Some None])
  next
    case (Some old)
    from update_ok(2)[OF assms \<open>ObjectId E aid = Some i\<close> Some]
    have "map_of (set_fields upd old) ''_id'' = Some (BObjectId i)" by (rule stored_has_id)
    from to_response_Inr[OF this] obtain out where "to_response E (set_fields upd old) = Inr out"
      by blast
    then show ?thesis
      using \<open>ObjectId E aid = Some i\<close> Some
      by (simp add: update_ok(1)[OF assms \<open>ObjectId E aid = Some i\<close> Some])
  qed
qed

lemma build_update_end_detail:
  assumes "x = [] \<or> fromisoformat E x = None"
      and "message = None \<or> (\<exists>m. message = Some m \<and> strip m \<noteq> [])"
      and "start_date = None \<or> start_date = Some [] \<or> (\<exists>y. start_date = Some y \<and> fromisoformat E y \<noteq> None)"
  shows "build_update E message (Some x) start_date
           = Inl (HTTPException 400 (if x = [] then ''end_date cannot be null''
                                     else ''Invalid datetime format: '' @ x))"
  using assms
  by (auto simp: build_update_def update_message_def update_start_date_def update_end_date_def
        parse_datetime_def split: option.splits if_splits sum.splits)

subsection \<open>Claims on update and delete\<close>

text \<open>
  C5. For every successful update in which only \<open>message\<close> is provided, the stored
  record's \<open>start_date\<close>, \<open>end_date\<close> and \<open>created_at\<close> are unchanged and its
  \<open>updated_at\<close> is refreshed to the current UTC instant.
\<close>

theorem update_message_only_frame:
  assumes "fst (update_announcement E aid (Some m) None None user s) = Inr out"
  shows "\<exists>i old new. ObjectId E aid = Some i \<and> stored i s = Some old
           \<and> stored i (snd (update_announcement E aid (Some m) None None user s)) = Some new
           \<and> map_of new ''start_date'' = map_of old ''start_date''
           \<and> map_of new ''end_date'' = map_of old ''end_date''
           \<and> map_of new ''created_at'' = map_of old ''created_at''
           \<and> map_of new ''updated_at'' = Some (BDate (utcnow E))
           \<and> map_of new ''message'' = Some (BString (strip m))
           \<and> serialized E new out"
proof -
  from update_Inr[OF assms] obtain upd i old where
    a: "authenticated user s" and upd: "build_update E (Some m) None None = Inr upd"
    and i: "ObjectId E aid = Some i" and old: "stored i s = Some old"
    by blast
  let ?new = "set_fields upd old"
  note u = build_update_Inr[OF upd]
  have m: "map_of ?new = map_of old ++ map_of upd"
    by (rule map_of_set_fields[OF u(1)])
  have st: "stored i (snd (update_announcement E aid (Some m) None None user s)) = Some ?new"
    by (rule update_ok(2)[OF a upd i old])
  have f: "map_of ?new ''start_date'' = map_of old ''start_date''"
    "map_of ?new ''end_date'' = map_of old ''end_date''"
    "map_of ?new ''created_at'' = map_of old ''created_at''"
    "map_of ?new ''updated_at'' = Some (BDate (utcnow E))"
    "map_of ?new ''message'' = Some (BString (strip m))"
    using u(3,4,5,6,7) by (simp_all add: m map_add_def)
  from assms have "to_response E ?new = Inr out"
    by (simp add: update_ok(1)[OF a upd i old])
  then have "serialized E ?new out" by (rule to_response_serialized)
  with i old st f show ?thesis by blast
qed


theorem update_message_only_frame_witness:
  "fst (update_announcement sample_env ''665f00000000000000000002'' (Some ''New'') None None
          (Some ''jwilson'') sample_db)
     = Inr [(''message'', BString ''New''),
            (''start_date'', BString ''2025-06-06T00:00:00''),
            (''end_date'', BString ''2025-06-11T00:00:00''),
            (''created_at'', BString ''2025-06-01T00:00:00''),
            (''updated_at'', BString ''2025-06-06T00:00:00''),
            (''id'', BString ''665f00000000000000000002'')]
   \<and> (\<exists>old new. stored 2 sample_db = Some old
         \<and> stored 2 (snd (update_announcement sample_env ''665f00000000000000000002'' (Some ''New'')
                            None None (Some ''jwilson'') sample_db)) = Some new
         \<and> map_of new ''start_date'' = map_of old ''start_date''
         \<and> map_of new ''end_date'' = map_of old ''end_date''
         \<and> map_of new ''created_at'' = map_of old ''created_at''
         \<and> map_of new ''updated_at'' = Some (BDate (utcnow sample_env))
         \<and> map_of new ''message'' = Some (BString (strip ''New'')))"
proof -
  have h: "fst (update_announcement sample_env ''665f00000000000000000002'' (Some ''New'') None None
          (Some ''jwilson'') sample_db)
     = Inr [(''message'', BString ''New''),
            (''start_date'', BString ''2025-06-06T00:00:00''),
            (''end_date'', BString ''2025-06-11T00:00:00''),
            (''created_at'', BString ''2025-06-01T00:00:00''),
            (''updated_at'', BString ''2025-06-06T00:00:00''),
            (''id'', BString ''665f00000000000000000002'')]"
    by (simp add: update_announcement_def require_teacher_def find_one_def update_one_def
        build_update_def update_message_def update_start_date_def update_end_date_def
        to_object_id_def coll_docs_def set_docs_def log_call_def Let_def sample_env_def
        sample_db_def strip_def isspace_def to_response_def serialize_dates_def
        serialize_key_def date_keys_def)
  have i: "ObjectId sample_env ''665f00000000000000000002'' = Some 2"
    by (simp add: sample_env_def)
  from update_message_only_frame[OF h] i h show ?thesis by auto
qed

text \<open>With valid fields, the result of an update follows from the identifier.\<close>

lemma update_result:
  assumes "authenticated user s" and "build_update E message end_date start_date = Inr upd"
  shows "fst (update_announcement E aid message end_date start_date user s)
           = (case ObjectId E aid of
                None \<Rightarrow> Inl (HTTPException 400 ''Invalid announcement id'')
              | Some i \<Rightarrow>
                  (case stored i s of
                     None \<Rightarrow> Inl (HTTPException 404 ''Announcement not found'')
                   | Some old \<Rightarrow> to_response E (set_fields upd old)))"
proof (cases "ObjectId E aid")
  case None
  then show ?thesis by (simp add: update_bad_id[OF assms None])
next
  case (Some i)
  show ?thesis
  proof (cases "stored i s")
    case None
    then show ?thesis using Some by (simp add: update_not_found[OF assms Some None])
  next
    case (Some old)
    then show ?thesis
      using \<open>ObjectId E aid = Some i\<close>
      by (simp add: update_ok(1)[OF assms \<open>ObjectId E aid = Some i\<close> Some])
  qed
qed

lemma to_response_updated:
  assumes "stored i s = Some old"
  shows "\<exists>out. to_response E (set_fields upd old) = Inr out"
proof -
  from stored_has_id[OF assms] have "map_of old ''_id'' \<noteq> None" by simp
  then have "map_of (set_fields upd old) ''_id'' \<noteq> None" by (rule set_fields_keeps_id)
  then show ?thesis by (auto simp: to_response_def)
qed







text \<open>
  C8 as amended. No operation enforces \<open>start_date \<le> end_date\<close>. For every create
  with an authenticated teacher, a message that is non-empty after trimming and
  parseable dates where \<open>start_date\<close> is strictly greater than \<open>end_date\<close>, the
  operation still succeeds and stores and returns both dates. For every such
  update the operation fails only on a malformed identifier (400 "Invalid
  announcement id") or on an identifier that names no stored record (404
  "Announcement not found"); otherwise it succeeds and stores and returns both
  dates.
\<close>

theorem start_after_end_accepted:
  assumes "authenticated user s" and "strip message \<noteq> []"
      and "start_date \<noteq> []" and "end_date \<noteq> []"
      and "fromisoformat E start_date = Some a" and "fromisoformat E end_date = Some b"
      and "b < a"
  shows "http_status (fst (create_announcement E message end_date (Some start_date) user s)) = 200
       \<and> response_field ''start_date''
           (fst (create_announcement E message end_date (Some start_date) user s))
           = Some (BString (isoformat E a))
       \<and> response_field ''end_date''
           (fst (create_announcement E message end_date (Some start_date) user s))
           = Some (BString (isoformat E b))
       \<and> (\<exists>new. stored (fresh_oid (announcements_collection s))
                   (snd (create_announcement E message end_date (Some start_date) user s)) = Some new
              \<and> map_of new ''message'' = Some (BString (strip message))
              \<and> map_of new ''start_date'' = Some (BDate a)
              \<and> map_of new ''end_date'' = Some (BDate b))
       \<and> (ObjectId E aid = None \<longrightarrow>
            fst (update_announcement E aid (Some message) (Some end_date) (Some start_date) user s)
              = Inl (HTTPException 400 ''Invalid announcement id''))
       \<and> (\<forall>i. ObjectId E aid = Some i \<and> stored i s = None \<longrightarrow>
            fst (update_announcement E aid (Some message) (Some end_date) (Some start_date) user s)
              = Inl (HTTPException 404 ''Announcement not found''))
       \<and> (\<forall>i. ObjectId E aid = Some i \<and> stored i s \<noteq> None \<longrightarrow>
            http_status (fst (update_announcement E aid (Some message) (Some end_date)
                                (Some start_date) user s)) = 200
            \<and> response_field ''start_date''
                (fst (update_announcement E aid (Some message) (Some end_date) (Some start_date) user s))
                = Some (BString (isoformat E a))
            \<and> response_field ''end_date''
                (fst (update_announcement E aid (Some message) (Some end_date) (Some start_date) user s))
                = Some (BString (isoformat E b))
            \<and> (\<exists>new. stored i (snd (update_announcement E aid (Some message) (Some end_date)
                                     (Some start_date) user s)) = Some new
                  \<and> map_of new ''message'' = Some (BString (strip message))
                  \<and> map_of new ''start_date'' = Some (BDate a)
                  \<and> map_of new ''end_date'' = Some (BDate b)))"
proof -
  let ?C = "create_announcement E message end_date (Some start_date) user s"
  let ?U = "update_announcement E aid (Some message) (Some end_date) (Some start_date) user s"
  have sd: "parse_datetime E (Some start_date) = Inr (Some a)"
    using assms(3,5) by (simp add: parse_datetime_def)
  let ?d = "created_doc E message (Some a) b s"
  note c = create_ok[OF assms(1,2,4,6) sd]
  obtain out where out: "to_response E ?d = Inr out"
    using to_response_created[of E message "Some a" b s] by blast
  have df: "map_of ?d ''message'' = Some (BString (strip message))"
    "map_of ?d ''start_date'' = Some (BDate a)"
    "map_of ?d ''end_date'' = Some (BDate b)"
    by (simp_all add: created_doc_def announcement_doc_def opt_date_def)
  from to_response_serialized[OF out] df
  have of: "map_of out ''start_date'' = Some (BString (isoformat E a))"
    "map_of out ''end_date'' = Some (BString (isoformat E b))"
    by (simp_all add: serialized_def iso_value_def)
  have 1: "http_status (fst ?C) = 200" by (simp add: c out)
  have 2: "response_field ''start_date'' (fst ?C) = Some (BString (isoformat E a))"
    by (simp add: c out response_field_def of)
  have 3: "response_field ''end_date'' (fst ?C) = Some (BString (isoformat E b))"
    by (simp add: c out response_field_def of)
  have "stored (fresh_oid (announcements_collection s)) (snd ?C) = Some ?d"
    by (rule stored_created[OF assms(1,2,4,6) sd])
  with df have 4: "\<exists>new. stored (fresh_oid (announcements_collection s)) (snd ?C) = Some new
              \<and> map_of new ''message'' = Some (BString (strip message))
              \<and> map_of new ''start_date'' = Some (BDate a)
              \<and> map_of new ''end_date'' = Some (BDate b)"
    by blast
  obtain upd where upd: "build_update E (Some message) (Some end_date) (Some start_date) = Inr upd"
    using build_update_ok[of "Some message" "Some start_date" E "Some end_date"] assms(2-6)
    by auto
  note u = build_update_Inr[OF upd]
  note r = update_result[OF assms(1) upd, of aid]
  have 5: "ObjectId E aid = None \<longrightarrow> fst ?U = Inl (HTTPException 400 ''Invalid announcement id'')"
    by (simp add: r)
  have 6: "\<forall>i. ObjectId E aid = Some i \<and> stored i s = None \<longrightarrow>
             fst ?U = Inl (HTTPException 404 ''Announcement not found'')"
    by (simp add: r)
  have 7: "\<forall>i. ObjectId E aid = Some i \<and> stored i s \<noteq> None \<longrightarrow>
            http_status (fst ?U) = 200
            \<and> response_field ''start_date'' (fst ?U) = Some (BString (isoformat E a))
            \<and> response_field ''end_date'' (fst ?U) = Some (BString (isoformat E b))
            \<and> (\<exists>new. stored i (snd ?U) = Some new
                  \<and> map_of new ''message'' = Some (BString (strip message))
                  \<and> map_of new ''start_date'' = Some (BDate a)
                  \<and> map_of new ''end_date'' = Some (BDate b))"
  proof (intro allI impI)
    fix i assume "ObjectId E aid = Some i \<and> stored i s \<noteq> None"
    then obtain old where i: "ObjectId E aid = Some i" and old: "stored i s = Some old" by auto
    let ?new = "set_fields upd old"
    have st: "stored i (snd ?U) = Some ?new"
      by (rule update_ok(2)[OF assms(1) upd i old])
    have nf: "map_of ?new ''message'' = Some (BString (strip message))"
      "map_of ?new ''start_date'' = Some (BDate a)"
      "map_of ?new ''end_date'' = Some (BDate b)"
      using u(5,6,7) assms(3,5,6)
      by (simp_all add: map_of_set_fields[OF u(1)] map_add_def opt_date_def)
    from to_response_updated[OF old, of E upd] obtain o' where o': "to_response E ?new = Inr o'"
      by blast
    from to_response_serialized[OF o'] nf
    have rf: "map_of o' ''start_date'' = Some (BString (isoformat E a))"
      "map_of o' ''end_date'' = Some (BString (isoformat E b))"
      by (simp_all add: serialized_def iso_value_def)
    have res: "fst ?U = Inr o'" by (simp add: r i old o')
    from st nf have "\<exists>new. stored i (snd ?U) = Some new
                  \<and> map_of new ''message'' = Some (BString (strip message))
                  \<and> map_of new ''start_date'' = Some (BDate a)
                  \<and> map_of new ''end_date'' = Some (BDate b)"
      by blast
    then show "http_status (fst ?U) = 200
            \<and> response_field ''start_date'' (fst ?U) = Some (BString (isoformat E a))
            \<and> response_field ''end_date'' (fst ?U) = Some (BString (isoformat E b))
            \<and> (\<exists>new. stored i (snd ?U) = Some new
                  \<and> map_of new ''message'' = Some (BString (strip message))
                  \<and> map_of new ''start_date'' = Some (BDate a)
                  \<and> map_of new ''end_date'' = Some (BDate b))"
      by (simp add: res response_field_def rf)
  qed
  from 1 2 3 4 5 6 7 show ?thesis by (intro conjI)
qed

theorem start_after_end_accepted_witness:
  "authenticated (Some ''jwilson'') sample_db \<and> strip ''Hi'' \<noteq> []
   \<and> fromisoformat sample_env ''2025-06-10T00:00:00'' = Some 1749513600
   \<and> fromisoformat sample_env ''2025-06-05T00:00:00'' = Some 1749081600
   \<and> (1749081600 :: int) < 1749513600
   \<and> http_status (fst (create_announcement sample_env ''Hi'' ''2025-06-05T00:00:00''
         (Some ''2025-06-10T00:00:00'') (Some ''jwilson'') sample_db)) = 200
   \<and> response_field ''start_date'' (fst (create_announcement sample_env ''Hi'' ''2025-06-05T00:00:00''
         (Some ''2025-06-10T00:00:00'') (Some ''jwilson'') sample_db))
       = Some (BString (isoformat sample_env 1749513600))
   \<and> (\<exists>new. stored (fresh_oid (announcements_collection sample_db))
               (snd (create_announcement sample_env ''Hi'' ''2025-06-05T00:00:00''
                  (Some ''2025-06-10T00:00:00'') (Some ''jwilson'') sample_db)) = Some new
          \<and> map_of new ''message'' = Some (BString (strip ''Hi''))
          \<and> map_of new ''start_date'' = Some (BDate 1749513600)
          \<and> map_of new ''end_date'' = Some (BDate 1749081600))
   \<and> http_status (fst (update_announcement sample_env ''665f00000000000000000002'' (Some ''Hi'')
         (Some ''2025-06-05T00:00:00'') (Some ''2025-06-10T00:00:00'') (Some ''jwilson'') sample_db)) = 200
   \<and> (\<exists>new. stored 2 (snd (update_announcement sample_env ''665f00000000000000000002'' (Some ''Hi'')
                  (Some ''2025-06-05T00:00:00'') (Some ''2025-06-10T00:00:00'') (Some ''jwilson'')
                  sample_db)) = Some new
          \<and> map_of new ''message'' = Some (BString (strip ''Hi''))
          \<and> map_of new ''start_date'' = Some (BDate 1749513600)
          \<and> map_of new ''end_date'' = Some (BDate 1749081600))"
proof -
  have a: "authenticated (Some ''jwilson'') sample_db"
    by (simp add: authenticated_def known_teacher_def sample_db_def)
  have m: "strip ''Hi'' \<noteq> []" by (simp add: strip_def isspace_def)
  have n: "''2025-06-10T00:00:00'' \<noteq> []" "''2025-06-05T00:00:00'' \<noteq> []" by simp_all
  have p: "fromisoformat sample_env ''2025-06-10T00:00:00'' = Some 1749513600"
    "fromisoformat sample_env ''2025-06-05T00:00:00'' = Some 1749081600"
    by (simp_all add: sample_env_def)
  have lt: "(1749081600 :: int) < 1749513600" by simp
  have i: "ObjectId sample_env ''665f00000000000000000002'' = Some 2"
    by (simp add: sample_env_def)
  have st: "stored 2 sample_db \<noteq> None"
    by (simp add: stored_def sample_db_def)
  note t = start_after_end_accepted[OF a m n p lt, where aid = "''665f00000000000000000002''"]
  from t have 1: "http_status (fst (create_announcement sample_env ''Hi'' ''2025-06-05T00:00:00''
         (Some ''2025-06-10T00:00:00'') (Some ''jwilson'') sample_db)) = 200" by blast
  from t have 2: "response_field ''start_date'' (fst (create_announcement sample_env ''Hi''
         ''2025-06-05T00:00:00'' (Some ''2025-06-10T00:00:00'') (Some ''jwilson'') sample_db))
       = Some (BString (isoformat sample_env 1749513600))" by blast
  from t have 3: "\<exists>new. stored (fresh_oid (announcements_collection sample_db))
               (snd (create_announcement sample_env ''Hi'' ''2025-06-05T00:00:00''
                  (Some ''2025-06-10T00:00:00'') (Some ''jwilson'') sample_db)) = Some new
          \<and> map_of new ''message'' = Some (BString (strip ''Hi''))
          \<and> map_of new ''start_date'' = Some (BDate 1749513600)
          \<and> map_of new ''end_date'' = Some (BDate 1749081600)" by blast
  from t i st have u: "http_status (fst (update_announcement sample_env ''665f00000000000000000002''
         (Some ''Hi'') (Some ''2025-06-05T00:00:00'') (Some ''2025-06-10T00:00:00'') (Some ''jwilson'')
         sample_db)) = 200
       \<and> (\<exists>new. stored 2 (snd (update_announcement sample_env ''665f00000000000000000002'' (Some ''Hi'')
                  (Some ''2025-06-05T00:00:00'') (Some ''2025-06-10T00:00:00'') (Some ''jwilson'')
                  sample_db)) = Some new
          \<and> map_of new ''message'' = Some (BString (strip ''Hi''))
          \<and> map_of new ''start_date'' = Some (BDate 1749513600)
          \<and> map_of new ''end_date'' = Some (BDate 1749081600))" by blast
  from a m p lt 1 2 3 u show ?thesis by (intro conjI) blast+
qed

text \<open>
  C8 as stated fails on two requests by an authenticated teacher with parseable
  dates, \<open>start_date\<close> after \<open>end_date\<close>: a create whose message is non-empty and
  blank is answered 400, and an update whose identifier names no stored record
  is answered 404.
\<close>

theorem start_after_end_other_outcome_counterexample:
  "authenticated (Some ''jwilson'') sample_db \<and> '' '' \<noteq> []
   \<and> fromisoformat sample_env ''2025-06-10T00:00:00'' = Some 1749513600
   \<and> fromisoformat sample_env ''2025-06-05T00:00:00'' = Some 1749081600
   \<and> fst (create_announcement sample_env '' '' ''2025-06-05T00:00:00''
         (Some ''2025-06-10T00:00:00'') (Some ''jwilson'') sample_db)
       = Inl (HTTPException 400 ''Message is required'')
   \<and> fst (update_announcement sample_env ''665f00000000000000000004'' (Some ''Hi'')
         (Some ''2025-06-05T00:00:00'') (Some ''2025-06-10T00:00:00'') (Some ''jwilson'') sample_db)
       = Inl (HTTPException 404 ''Announcement not found'')"
  by (simp add: create_announcement_def update_announcement_def require_teacher_def find_one_def
        update_one_def build_update_def update_message_def update_start_date_def
        update_end_date_def parse_datetime_def opt_date_def strip_def isspace_def
        authenticated_def known_teacher_def
        to_object_id_def coll_docs_def set_docs_def log_call_def Let_def sample_env_def
        sample_db_def)

lemma delete_ok_or_not_found:
  assumes "authenticated user s" and "ObjectId E aid = Some i"
  shows "http_status (fst (delete_announcement E aid user s)) = (if stored i s = None then 404 else 200)"
  using assms(2)
  by (simp add: delete_announcement_def require_teacher_ok[OF assms(1)] to_object_id_def
        delete_one_def coll_docs_def log_call_def set_docs_def list_ex_find matches_id stored_def Let_def)

lemma announcement_calls_log_call_Teachers:
  "filter (\<lambda>c. fst c = Announcements) (calls (log_call Teachers FindOne s))
     = filter (\<lambda>c. fst c = Announcements) (calls s)"
  "announcements_collection (log_call Teachers FindOne s) = announcements_collection s"
  by (simp_all add: log_call_def)

lemma announcement_calls_auth_state:
  "filter (\<lambda>c. fst c = Announcements) (calls (auth_state user s))
     = filter (\<lambda>c. fst c = Announcements) (calls s)"
  "announcements_collection (auth_state user s) = announcements_collection s"
  by (simp_all add: auth_state_def log_call_def)

text \<open>
  C9 as amended. For every delete by an authenticated teacher given a malformed
  identifier, and every update by an authenticated teacher given a malformed
  identifier and a message and dates that pass validation, the operation fails
  with InvalidInput (400, "Invalid announcement id"); and for every update or
  delete given a malformed identifier the operation fails and no query is issued
  to the announcements store.
\<close>

theorem malformed_id_rejected_before_store:
  assumes "ObjectId E aid = None"
  shows "(authenticated user s \<longrightarrow>
            delete_announcement E aid user s
              = (Inl (HTTPException 400 ''Invalid announcement id''), log_call Teachers FindOne s))
       \<and> (authenticated user s
            \<and> (message = None \<or> (\<exists>m. message = Some m \<and> strip m \<noteq> []))
            \<and> (start_date = None \<or> start_date = Some []
                 \<or> (\<exists>y. start_date = Some y \<and> fromisoformat E y \<noteq> None))
            \<and> (end_date = None \<or> (\<exists>y. end_date = Some y \<and> y \<noteq> [] \<and> fromisoformat E y \<noteq> None)) \<longrightarrow>
            update_announcement E aid message end_date start_date user s
              = (Inl (HTTPException 400 ''Invalid announcement id''), log_call Teachers FindOne s))
       \<and> http_status (fst (delete_announcement E aid user s))
           = (if authenticated user s then 400 else 401)
       \<and> http_status (fst (update_announcement E aid message end_date start_date user s))
           = (if authenticated user s then 400 else 401)
       \<and> announcements_collection (snd (delete_announcement E aid user s)) = announcements_collection s
       \<and> filter (\<lambda>c. fst c = Announcements) (calls (snd (delete_announcement E aid user s)))
           = filter (\<lambda>c. fst c = Announcements) (calls s)
       \<and> announcements_collection (snd (update_announcement E aid message end_date start_date user s))
           = announcements_collection s
       \<and> filter (\<lambda>c. fst c = Announcements)
            (calls (snd (update_announcement E aid message end_date start_date user s)))
           = filter (\<lambda>c. fst c = Announcements) (calls s)"
proof (cases "authenticated user s")
  case False
  show ?thesis
    using False
    by (simp add: delete_unauth update_unauth announcement_calls_auth_state)
next
  case True
  note d = delete_bad_id[OF True assms]
  have u: "\<exists>detail. update_announcement E aid message end_date start_date user s
             = (Inl (HTTPException 400 detail), log_call Teachers FindOne s)"
  proof (cases "build_update E message end_date start_date")
    case (Inl e)
    from build_update_Inl[OF Inl] update_invalid[OF True Inl] show ?thesis by auto
  next
    case (Inr upd)
    from update_bad_id[OF True Inr assms] show ?thesis by auto
  qed
  have v: "(message = None \<or> (\<exists>m. message = Some m \<and> strip m \<noteq> []))
            \<and> (start_date = None \<or> start_date = Some []
                 \<or> (\<exists>y. start_date = Some y \<and> fromisoformat E y \<noteq> None))
            \<and> (end_date = None \<or> (\<exists>y. end_date = Some y \<and> y \<noteq> [] \<and> fromisoformat E y \<noteq> None)) \<Longrightarrow>
            update_announcement E aid message end_date start_date user s
              = (Inl (HTTPException 400 ''Invalid announcement id''), log_call Teachers FindOne s)"
  proof -
    assume h: "(message = None \<or> (\<exists>m. message = Some m \<and> strip m \<noteq> []))
            \<and> (start_date = None \<or> start_date = Some []
                 \<or> (\<exists>y. start_date = Some y \<and> fromisoformat E y \<noteq> None))
            \<and> (end_date = None \<or> (\<exists>y. end_date = Some y \<and> y \<noteq> [] \<and> fromisoformat E y \<noteq> None))"
    then obtain upd where "build_update E message end_date start_date = Inr upd"
      using build_update_ok[of message start_date E end_date] by blast
    from update_bad_id[OF True this assms] show ?thesis .
  qed
  from u obtain detail where u': "update_announcement E aid message end_date start_date user s
             = (Inl (HTTPException 400 detail), log_call Teachers FindOne s)" by blast
  show ?thesis
    using True v by (simp add: d u' announcement_calls_log_call_Teachers)
qed

theorem malformed_id_rejected_before_store_witness:
  "ObjectId sample_env ''not-an-id'' = None \<and> authenticated (Some ''jwilson'') sample_db
   \<and> delete_announcement sample_env ''not-an-id'' (Some ''jwilson'') sample_db
       = (Inl (HTTPException 400 ''Invalid announcement id''), log_call Teachers FindOne sample_db)
   \<and> update_announcement sample_env ''not-an-id'' None None None (Some ''jwilson'') sample_db
       = (Inl (HTTPException 400 ''Invalid announcement id''), log_call Teachers FindOne sample_db)
   \<and> filter (\<lambda>c. fst c = Announcements)
        (calls (snd (delete_announcement sample_env ''not-an-id'' (Some ''jwilson'') sample_db)))
       = filter (\<lambda>c. fst c = Announcements) (calls sample_db)"
proof -
  have i: "ObjectId sample_env ''not-an-id'' = None" by (simp add: sample_env_def)
  have a: "authenticated (Some ''jwilson'') sample_db"
    by (simp add: authenticated_def known_teacher_def sample_db_def)
  note t = malformed_id_rejected_before_store[OF i, where user = "Some ''jwilson''" and s = sample_db
      and message = None and start_date = None and end_date = None]
  from t a have 1: "delete_announcement sample_env ''not-an-id'' (Some ''jwilson'') sample_db
       = (Inl (HTTPException 400 ''Invalid announcement id''), log_call Teachers FindOne sample_db)"
    by blast
  from t a have 2: "update_announcement sample_env ''not-an-id'' None None None (Some ''jwilson'') sample_db
       = (Inl (HTTPException 400 ''Invalid announcement id''), log_call Teachers FindOne sample_db)"
    by blast
  from t have 3: "filter (\<lambda>c. fst c = Announcements)
        (calls (snd (delete_announcement sample_env ''not-an-id'' (Some ''jwilson'') sample_db)))
       = filter (\<lambda>c. fst c = Announcements) (calls sample_db)"
    by blast
  from i a 1 2 3 show ?thesis by (intro conjI)
qed

text \<open>
  C9 as stated fails on a malformed identifier sent without \<open>teacher_username\<close>
  (the answer is 401) and on an update whose message is blank (the answer is 400
  with another detail).
\<close>

theorem malformed_id_other_error_counterexample:
  "ObjectId sample_env ''not-an-id'' = None
   \<and> fst (delete_announcement sample_env ''not-an-id'' None sample_db)
       = Inl (HTTPException 401 ''Authentication required'')
   \<and> fst (update_announcement sample_env ''not-an-id'' (Some ''  '') None None (Some ''jwilson'') sample_db)
       = Inl (HTTPException 400 ''Message cannot be empty'')"
  by (simp add: delete_announcement_def update_announcement_def require_teacher_def find_one_def
        coll_docs_def log_call_def build_update_def update_message_def strip_def isspace_def
        sample_env_def sample_db_def)

text \<open>
  C10. The authentication check comes before any other validation in create,
  update and delete: a request whose \<open>teacher_username\<close> is missing or unknown is
  answered 401 whatever its identifier, message and dates are (malformed, empty
  or unparseable included), and the announcements store is not touched.
\<close>

theorem authentication_before_validation:
  assumes "\<not> authenticated teacher_username s"
  shows "http_status (fst (create_announcement E message end_date start_date teacher_username s)) = 401
       \<and> http_status (fst (update_announcement E aid message' end_date' start_date' teacher_username s)) = 401
       \<and> http_status (fst (delete_announcement E aid teacher_username s)) = 401
       \<and> announcements_collection (snd (create_announcement E message end_date start_date teacher_username s))
           = announcements_collection s
       \<and> announcements_collection
           (snd (update_announcement E aid message' end_date' start_date' teacher_username s))
           = announcements_collection s
       \<and> announcements_collection (snd (delete_announcement E aid teacher_username s))
           = announcements_collection s"
  using assms
  by (simp add: create_unauth update_unauth delete_unauth announcement_calls_auth_state)

theorem authentication_before_validation_witness:
  "\<not> authenticated None sample_db \<and> \<not> authenticated (Some ''mallory'') sample_db
   \<and> ObjectId sample_env ''not-an-id'' = None \<and> strip ''  '' = []
   \<and> fromisoformat sample_env ''tomorrow'' = None
   \<and> http_status (fst (update_announcement sample_env ''not-an-id'' (Some ''  '') (Some ''tomorrow'')
        None None sample_db)) = 401
   \<and> http_status (fst (delete_announcement sample_env ''not-an-id'' (Some ''mallory'') sample_db)) = 401
   \<and> http_status (fst (create_announcement sample_env ''  '' ''tomorrow'' None (Some ''mallory'')
        sample_db)) = 401"
proof -
  have a: "\<not> authenticated None sample_db" by (simp add: authenticated_def)
  have b: "\<not> authenticated (Some ''mallory'') sample_db"
    by (simp add: authenticated_def known_teacher_def sample_db_def)
  have i: "ObjectId sample_env ''not-an-id'' = None" by (simp add: sample_env_def)
  have m: "strip ''  '' = []" by (simp add: strip_def isspace_def)
  have p: "fromisoformat sample_env ''tomorrow'' = None" by (simp add: sample_env_def)
  from authentication_before_validation[OF a]
  have 1: "http_status (fst (update_announcement sample_env ''not-an-id'' (Some ''  '') (Some ''tomorrow'')
        None None sample_db)) = 401" by blast
  from authentication_before_validation[OF b]
  have 2: "http_status (fst (delete_announcement sample_env ''not-an-id'' (Some ''mallory'') sample_db)) = 401"
    by blast
  from authentication_before_validation[OF b]
  have 3: "http_status (fst (create_announcement sample_env ''  '' ''tomorrow'' None (Some ''mallory'')
        sample_db)) = 401" by blast
  from a b i m p 1 2 3 show ?thesis by (intro conjI)
qed

end
